theory Spec2Isabelle
  imports Main "HOL-Library.AList"
begin

section \<open>Errors, truthiness and number printing\<close>

text \<open>
  The providers throw plain \<open>Error\<close> objects and let the vendor SDK's exceptions pass.
  The model keeps three kinds apart: the two \<open>throw new Error(...)\<close> of the credentials
  provider and of every \<open>getClient\<close> (\<open>Unknown AWS account: <name>\<close>,
  \<open>Failed to assume role for account: <name>\<close>), carrying the account name, and an
  exception raised inside \<open>client.send\<close>, carrying its \<open>name\<close> property, which is all the
  handlers of the source ever read.
\<close>

datatype error =
    UnknownAccount string
  | AssumeRoleFailed string
  | VendorFailure string

fun error_name :: "error \<Rightarrow> string" where
  "error_name (VendorFailure n) = n"
| "error_name (UnknownAccount a) = ''Error''"
| "error_name (AssumeRoleFailed a) = ''Error''"

text \<open>
  A value of type \<open>string | undefined\<close> used as a condition (\<open>while (marker)\<close>,
  \<open>if (account.externalId)\<close>, \<open>tag.Key && tag.Value\<close>): \<open>undefined\<close> and the empty
  string are falsy.
\<close>

definition truthy :: "string option \<Rightarrow> bool" where
  "truthy s = (case s of None \<Rightarrow> False | Some x \<Rightarrow> x \<noteq> [])"

text \<open>\<open>x ?? d\<close>, and its instance \<open>xs ?? []\<close>.\<close>

definition orElse :: "'a option \<Rightarrow> 'a \<Rightarrow> 'a" where
  "orElse x d = (case x of None \<Rightarrow> d | Some v \<Rightarrow> v)"

definition orEmpty :: "'a list option \<Rightarrow> 'a list" where
  "orEmpty xs = (case xs of None \<Rightarrow> [] | Some l \<Rightarrow> l)"

text \<open>The decimal rendering of an integer inside a template literal.\<close>

fun show_nat :: "nat \<Rightarrow> string" where
  "show_nat n =
     (if n < 10 then [''0123456789'' ! n]
      else show_nat (n div 10) @ [''0123456789'' ! (n mod 10)])"

declare show_nat.simps [simp del]

definition show_int :: "int \<Rightarrow> string" where
  "show_int i = (if i < 0 then ''-'' @ show_nat (nat (- i)) else show_nat (nat i))"


section \<open>The credentials provider (AwsCredentialsProvider.ts)\<close>

record AwsAccount =
  name :: string
  accountId :: string
  region :: string
  roleArn :: string
  externalId :: "string option"

text \<open>What the security-token service is sent and what it answers. Dates are
  milliseconds since the epoch, the value of \<open>getTime()\<close> and of \<open>Date.now()\<close>.\<close>

record AssumeRoleParams =
  RoleArn :: string
  RoleSessionName :: string
  DurationSeconds :: int
  ExternalId :: "string option"

record StsCredentials =
  AccessKeyId :: "string option"
  SecretAccessKey :: "string option"
  SessionToken :: "string option"
  Expiration :: "int option"

record AssumeRoleResponse =
  Credentials :: "StsCredentials option"

record AwsCredentialIdentity =
  accessKeyId :: "string option"
  secretAccessKey :: "string option"
  sessionToken :: "string option"
  expiration :: "int option"

record cache_entry =
  credentials :: AwsCredentialIdentity
  expiresAt :: int

text \<open>
  The security-token service is a parameter: \<open>sts region params\<close> is the outcome of
  \<open>new STSClient({ region }).send(new AssumeRoleCommand(params))\<close>, an exception or a
  response. The mutable state is the credentials cache; beside it the state records every
  exchange sent, oldest first, so that exchanges can be counted.
\<close>

type_synonym sts = "string \<Rightarrow> AssumeRoleParams \<Rightarrow> error + AssumeRoleResponse"

record broker_state =
  credentialsCache :: "string \<rightharpoonup> cache_entry"
  exchanges :: "(string \<times> AssumeRoleParams) list"

definition getAccount :: "(string \<rightharpoonup> AwsAccount) \<Rightarrow> string \<Rightarrow> AwsAccount option" where
  "getAccount accounts a = accounts a"

text \<open>The parameters both \<open>getCredentials\<close> and \<open>getCredentialsProvider\<close> build: the
  external id is added only when it is truthy.\<close>

definition assumeRoleParams :: "AwsAccount \<Rightarrow> int \<Rightarrow> AssumeRoleParams" where
  "assumeRoleParams account now =
     \<lparr> RoleArn = roleArn account,
       RoleSessionName = ''backstage-aws-plugin-'' @ show_int now,
       DurationSeconds = 3600,
       ExternalId = (if truthy (externalId account) then externalId account else None) \<rparr>"

text \<open>
  \<open>getCredentials\<close>, lines 70 to 103: the path taken when the cache does not answer.
  \<open>tSession\<close> and \<open>tStore\<close> are the readings of \<open>Date.now()\<close> at lines 76 and 100.
  \<open>leaseOf\<close> is the object built at lines 91 to 96.
\<close>

definition leaseOf :: "StsCredentials \<Rightarrow> AwsCredentialIdentity" where
  "leaseOf c = \<lparr> accessKeyId = AccessKeyId c, secretAccessKey = SecretAccessKey c,
                 sessionToken = SessionToken c, expiration = Expiration c \<rparr>"

definition assumeRole ::
  "sts \<Rightarrow> int \<Rightarrow> int \<Rightarrow> string \<Rightarrow> AwsAccount \<Rightarrow> broker_state
     \<Rightarrow> (error + AwsCredentialIdentity) \<times> broker_state" where
  "assumeRole sts tSession tStore accountName account s =
     (let ps = assumeRoleParams account tSession;
          s1 = s\<lparr> exchanges := exchanges s @ [(region account, ps)] \<rparr>
      in case sts (region account) ps of
           Inl e \<Rightarrow> (Inl e, s1)
         | Inr response \<Rightarrow>
             (case Credentials response of
                None \<Rightarrow> (Inl (AssumeRoleFailed accountName), s1)
              | Some c \<Rightarrow>
                  (let creds = leaseOf c;
                       entry = \<lparr> credentials = creds,
                                 expiresAt = (case Expiration c of
                                                Some t \<Rightarrow> t
                                              | None \<Rightarrow> tStore + 3600000) \<rparr>
                   in (Inr creds,
                       s1\<lparr> credentialsCache := (credentialsCache s1)(accountName \<mapsto> entry) \<rparr>))))"

text \<open>The test of line 66: the cache holds a lease for the account that expires more than
  60 seconds after \<open>t\<close>.\<close>

definition cacheHit :: "broker_state \<Rightarrow> string \<Rightarrow> int \<Rightarrow> bool" where
  "cacheHit s a t =
     (case credentialsCache s a of None \<Rightarrow> False | Some cached \<Rightarrow> expiresAt cached > t + 60000)"

text \<open>\<open>getCredentials\<close>; \<open>tCheck\<close> is the reading of \<open>Date.now()\<close> at line 66.\<close>

definition getCredentials ::
  "(string \<rightharpoonup> AwsAccount) \<Rightarrow> sts \<Rightarrow> int \<Rightarrow> int \<Rightarrow> int \<Rightarrow> string \<Rightarrow> broker_state
     \<Rightarrow> (error + AwsCredentialIdentity) \<times> broker_state" where
  "getCredentials accounts sts tCheck tSession tStore accountName s =
     (case accounts accountName of
        None \<Rightarrow> (Inl (UnknownAccount accountName), s)
      | Some account \<Rightarrow>
          (case credentialsCache s accountName of
             None \<Rightarrow> assumeRole sts tSession tStore accountName account s
           | Some cached \<Rightarrow>
               if expiresAt cached > tCheck + 60000 then (Inr (credentials cached), s)
               else assumeRole sts tSession tStore accountName account s))"

text \<open>
  \<open>getCredentialsProvider\<close> hands its parameters to the SDK's
  \<open>fromTemporaryCredentials\<close>, which is not part of the repository and is a parameter
  \<open>ftc\<close> here. The function reads the account table and the clock and nothing else.
\<close>

record FromTemporaryCredentialsOptions =
  params :: AssumeRoleParams
  clientConfigRegion :: string

definition getCredentialsProvider ::
  "(string \<rightharpoonup> AwsAccount) \<Rightarrow> (FromTemporaryCredentialsOptions \<Rightarrow> 's) \<Rightarrow> int \<Rightarrow> string
     \<Rightarrow> error + 's" where
  "getCredentialsProvider accounts ftc now accountName =
     (case accounts accountName of
        None \<Rightarrow> Inl (UnknownAccount accountName)
      | Some account \<Rightarrow>
          Inr (ftc \<lparr> params = assumeRoleParams account now,
                     clientConfigRegion = region account \<rparr>))"


text \<open>
  What the provider built by the SDK's \<open>fromTemporaryCredentials\<close> does when a client
  asks it for credentials, by the SDK's documentation (it is no code of the repository):
  it sends the \<open>AssumeRole\<close> request of its options to the token service of its
  region and hands out the credentials of the answer. It has no access to the provider's
  cache. It is used where a theorem needs a supplier that can be run; the operations
  themselves take \<open>ftc\<close> as a parameter.
\<close>

type_synonym supplier = "sts \<Rightarrow> broker_state \<Rightarrow> (error + AwsCredentialIdentity) \<times> broker_state"

definition sdkTemporaryCredentials :: "FromTemporaryCredentialsOptions \<Rightarrow> supplier" where
  "sdkTemporaryCredentials opts sts s =
     (let s1 = s\<lparr> exchanges := exchanges s @ [(clientConfigRegion opts, params opts)] \<rparr>
      in case sts (clientConfigRegion opts) (params opts) of
           Inl e \<Rightarrow> (Inl e, s1)
         | Inr response \<Rightarrow>
             (case Credentials response of
                None \<Rightarrow> (Inl (VendorFailure ''CredentialsProviderError''), s1)
              | Some c \<Rightarrow> (Inr (leaseOf c), s1)))"


section \<open>Clients and the vendor\<close>

text \<open>
  Every provider has the same private \<open>getClient\<close>: it looks the account up, and builds
  the service's client from the account's region and from what \<open>getCredentialsProvider\<close>
  returns. \<open>service\<close> says which client class is built.
\<close>

datatype service =
    Lambda | DynamoDB | ECR | S3 | SSM | SecretsManager | EFS | ECS | RDS | DocumentDB
  | ApiGateway

record 's ClientConfig =
  clientService :: service
  clientRegion :: string
  clientCredentials :: 's

definition getClient ::
  "(string \<rightharpoonup> AwsAccount) \<Rightarrow> (FromTemporaryCredentialsOptions \<Rightarrow> 's) \<Rightarrow> int \<Rightarrow> service
     \<Rightarrow> string \<Rightarrow> error + 's ClientConfig" where
  "getClient accounts ftc now svc accountName =
     (case getAccount accounts accountName of
        None \<Rightarrow> Inl (UnknownAccount accountName)
      | Some account \<Rightarrow>
          (case getCredentialsProvider accounts ftc now accountName of
             Inl e \<Rightarrow> Inl e
           | Inr provider \<Rightarrow>
               Inr \<lparr> clientService = svc, clientRegion = region account,
                     clientCredentials = provider \<rparr>))"

text \<open>
  \<open>client.send(command)\<close> is a parameter of every operation. A cursor-driven listing
  request is a step of the vendor's state \<open>'v\<close>: it takes the request and the state and
  gives an exception or a response, and the next state. A vendor that answers from a fixed
  script of responses and notes every request it receives serves to count the requests.
\<close>

type_synonym ('q, 'r, 'v) send = "'q \<Rightarrow> 'v \<Rightarrow> (error + 'r) \<times> 'v"

record ('q, 'r) script =
  pending :: "(error + 'r) list"
  received :: "'q list"

definition scripted :: "('q, 'r, ('q, 'r) script) send" where
  "scripted q s =
     (case pending s of
        [] \<Rightarrow> (Inl (VendorFailure ''ScriptExhausted''), s\<lparr> received := received s @ [q] \<rparr>)
      | r # rs \<Rightarrow> (r, \<lparr> pending = rs, received = received s @ [q] \<rparr>))"


section \<open>Tags\<close>

text \<open>
  A vendor tag list is turned into an object by \<open>tags[tag.Key] = tag.Value\<close> for the tags
  whose key and value are both truthy. The object is an association list of its own
  properties; assigning a string to the key \<open>__proto__\<close> of an object literal creates no
  property.
\<close>

record Tag =
  Key :: "string option"
  Value :: "string option"

type_synonym tags = "(string \<times> string) list"

definition js_put :: "string \<Rightarrow> string \<Rightarrow> tags \<Rightarrow> tags" where
  "js_put k v obj = (if k = ''__proto__'' then obj else AList.update k v obj)"

definition putTag :: "tags \<Rightarrow> Tag \<Rightarrow> tags" where
  "putTag obj tag =
     (case Key tag of
        None \<Rightarrow> obj
      | Some k \<Rightarrow>
          (case Value tag of
             None \<Rightarrow> obj
           | Some v \<Rightarrow> if k \<noteq> [] \<and> v \<noteq> [] then js_put k v obj else obj))"

definition collectTags :: "Tag list \<Rightarrow> tags" where
  "collectTags ts = foldl putTag [] ts"

text \<open>\<open>Object.keys(tags).length > 0 ? tags : undefined\<close>, as the mappers of the secrets
  and file-system providers end.\<close>

definition nonEmptyTags :: "tags \<Rightarrow> tags option" where
  "nonEmptyTags obj = (if length obj > 0 then Some obj else None)"

text \<open>The form used by \<open>getTable\<close>, \<open>getBucket\<close> and the registry provider: the object
  is created when the vendor's list is present and not empty, before the tags are
  filtered.\<close>

definition tagsIfListed :: "Tag list option \<Rightarrow> tags option" where
  "tagsIfListed ts =
     (case ts of
        None \<Rightarrow> None
      | Some l \<Rightarrow> if length l > 0 then Some (collectTags l) else None)"


section \<open>DynamoDB: listTables (part_001)\<close>

record ListTablesOutput =
  TableNames :: "string list option"
  LastEvaluatedTableName :: "string option"

partial_function (option) listTables_loop ::
  "(string option, ListTablesOutput, 'v) send \<Rightarrow> string list \<Rightarrow> string option \<Rightarrow> 'v
     \<Rightarrow> ((error + string list) \<times> 'v) option" where
  "listTables_loop send tableNames exclusiveStartTableName v =
     (case send exclusiveStartTableName v of
        (Inl e, v') \<Rightarrow> Some (Inl e, v')
      | (Inr response, v') \<Rightarrow>
          (let tableNames' = tableNames @ orEmpty (TableNames response)
           in if truthy (LastEvaluatedTableName response)
              then listTables_loop send tableNames' (LastEvaluatedTableName response) v'
              else Some (Inr tableNames', v')))"

declare listTables_loop.simps [code]

definition listTables ::
  "(string \<rightharpoonup> AwsAccount) \<Rightarrow> (FromTemporaryCredentialsOptions \<Rightarrow> 's) \<Rightarrow> int
     \<Rightarrow> ('s ClientConfig \<Rightarrow> (string option, ListTablesOutput, 'v) send)
     \<Rightarrow> string \<Rightarrow> 'v \<Rightarrow> ((error + string list) \<times> 'v) option" where
  "listTables accounts ftc now listTablesCommand accountName v =
     (case getClient accounts ftc now DynamoDB accountName of
        Inl e \<Rightarrow> Some (Inl e, v)
      | Inr client \<Rightarrow> listTables_loop (listTablesCommand client) [] None v)"


section \<open>Lambda: listFunctions, getFunction (LambdaProvider.ts)\<close>

record EnvironmentResponse =
  Variables :: "tags option"

record FunctionConfiguration =
  FunctionName :: "string option"
  FunctionArn :: "string option"
  Runtime :: "string option"
  Handler :: "string option"
  CodeSize :: "int option"
  Description :: "string option"
  Timeout :: "int option"
  MemorySize :: "int option"
  LastModified :: "string option"
  Version :: "string option"
  Environment :: "EnvironmentResponse option"

record ListFunctionsResponse =
  Functions :: "FunctionConfiguration list option"
  NextMarker :: "string option"

record GetFunctionResponse =
  Configuration :: "FunctionConfiguration option"
  FunctionTags :: "tags option"

record LambdaFunction =
  functionName :: string
  functionArn :: string
  runtime :: "string option"
  handler :: "string option"
  codeSize :: int
  description :: "string option"
  timeout :: "int option"
  memorySize :: "int option"
  lastModified :: "string option"
  version :: string
  environment :: "tags option"
  tags :: "tags option"

definition mapFunction :: "FunctionConfiguration \<Rightarrow> LambdaFunction" where
  "mapFunction fn =
     \<lparr> functionName = orElse (FunctionName fn) [],
       functionArn = orElse (FunctionArn fn) [],
       runtime = Runtime fn,
       handler = Handler fn,
       codeSize = orElse (CodeSize fn) 0,
       description = Description fn,
       timeout = Timeout fn,
       memorySize = MemorySize fn,
       lastModified = LastModified fn,
       version = orElse (Version fn) ''$LATEST'',
       environment = (case Environment fn of None \<Rightarrow> None | Some e \<Rightarrow> Variables e),
       tags = None \<rparr>"

partial_function (option) listFunctions_loop ::
  "(string option, ListFunctionsResponse, 'v) send \<Rightarrow> LambdaFunction list \<Rightarrow> string option \<Rightarrow> 'v
     \<Rightarrow> ((error + LambdaFunction list) \<times> 'v) option" where
  "listFunctions_loop send functions marker v =
     (case send marker v of
        (Inl e, v') \<Rightarrow> Some (Inl e, v')
      | (Inr response, v') \<Rightarrow>
          (let functions' = functions @ map mapFunction (orEmpty (Functions response))
           in if truthy (NextMarker response)
              then listFunctions_loop send functions' (NextMarker response) v'
              else Some (Inr functions', v')))"

declare listFunctions_loop.simps [code]

definition listFunctions ::
  "(string \<rightharpoonup> AwsAccount) \<Rightarrow> (FromTemporaryCredentialsOptions \<Rightarrow> 's) \<Rightarrow> int
     \<Rightarrow> ('s ClientConfig \<Rightarrow> (string option, ListFunctionsResponse, 'v) send)
     \<Rightarrow> string \<Rightarrow> 'v \<Rightarrow> ((error + LambdaFunction list) \<times> 'v) option" where
  "listFunctions accounts ftc now listFunctionsCommand accountName v =
     (case getClient accounts ftc now Lambda accountName of
        Inl e \<Rightarrow> Some (Inl e, v)
      | Inr client \<Rightarrow> listFunctions_loop (listFunctionsCommand client) [] None v)"

text \<open>\<open>getFunction\<close>: the spread of \<open>mapFunction\<close>'s result with \<open>tags: response.Tags\<close>
  put over it.\<close>

definition getFunction ::
  "(string \<rightharpoonup> AwsAccount) \<Rightarrow> (FromTemporaryCredentialsOptions \<Rightarrow> 's) \<Rightarrow> int
     \<Rightarrow> ('s ClientConfig \<Rightarrow> (string, GetFunctionResponse, 'v) send)
     \<Rightarrow> string \<Rightarrow> string \<Rightarrow> 'v \<Rightarrow> (error + LambdaFunction option) \<times> 'v" where
  "getFunction accounts ftc now getFunctionCommand accountName fname v =
     (case getClient accounts ftc now Lambda accountName of
        Inl e \<Rightarrow> (Inl e, v)
      | Inr client \<Rightarrow>
          (case getFunctionCommand client fname v of
             (Inl e, v') \<Rightarrow>
               if error_name e = ''ResourceNotFoundException'' then (Inr None, v')
               else (Inl e, v')
           | (Inr response, v') \<Rightarrow>
               (case Configuration response of
                  None \<Rightarrow> (Inr None, v')
                | Some c \<Rightarrow> (Inr (Some ((mapFunction c)\<lparr> tags := FunctionTags response \<rparr>)), v'))))"


section \<open>Secrets Manager and EFS: the mappers (SecretsManagerProvider.ts, part_002)\<close>

record SecretListEntry =
  SecretName :: "string option"
  SecretARN :: "string option"
  SecretDescription :: "string option"
  SecretKmsKeyId :: "string option"
  RotationEnabled :: "bool option"
  LastChangedDate :: "int option"
  LastAccessedDate :: "int option"
  SecretTags :: "Tag list option"

record SecretMetadata =
  secretName :: string
  secretArn :: string
  secretDescription :: "string option"
  secretKmsKeyId :: "string option"
  rotationEnabled :: bool
  lastChangedDate :: "int option"
  lastAccessedDate :: "int option"
  secretTags :: "tags option"

definition mapSecret :: "SecretListEntry \<Rightarrow> SecretMetadata" where
  "mapSecret secret =
     (let tags = collectTags (orEmpty (SecretTags secret))
      in \<lparr> secretName = orElse (SecretName secret) [],
           secretArn = orElse (SecretARN secret) [],
           secretDescription = SecretDescription secret,
           secretKmsKeyId = SecretKmsKeyId secret,
           rotationEnabled = orElse (RotationEnabled secret) False,
           lastChangedDate = LastChangedDate secret,
           lastAccessedDate = LastAccessedDate secret,
           secretTags = nonEmptyTags tags \<rparr>)"

text \<open>\<open>mapFileSystem\<close>: \<open>now\<close> is the \<open>new Date()\<close> taken when the vendor gives no creation
  time.\<close>

record FileSystemSize =
  SizeValue :: "int option"

record FileSystemDescription =
  FileSystemId :: "string option"
  FileSystemArn :: "string option"
  FileSystemName :: "string option"
  CreationTime :: "int option"
  LifeCycleState :: "string option"
  NumberOfMountTargets :: "int option"
  SizeInBytes :: "FileSystemSize option"
  PerformanceMode :: "string option"
  ThroughputMode :: "string option"
  ProvisionedThroughputInMibps :: "int option"
  Encrypted :: "bool option"
  FileSystemKmsKeyId :: "string option"
  FileSystemTags :: "Tag list option"

record EfsFileSystem =
  fileSystemId :: string
  fileSystemArn :: string
  fileSystemName :: "string option"
  creationTime :: int
  lifeCycleState :: string
  numberOfMountTargets :: int
  sizeInBytes :: int
  performanceMode :: string
  throughputMode :: string
  provisionedThroughputInMibps :: "int option"
  encrypted :: bool
  fileSystemKmsKeyId :: "string option"
  fileSystemTags :: "tags option"

definition mapFileSystem :: "int \<Rightarrow> FileSystemDescription \<Rightarrow> EfsFileSystem" where
  "mapFileSystem now fs =
     (let tags = collectTags (orEmpty (FileSystemTags fs))
      in \<lparr> fileSystemId = orElse (FileSystemId fs) [],
           fileSystemArn = orElse (FileSystemArn fs) [],
           fileSystemName = FileSystemName fs,
           creationTime = orElse (CreationTime fs) now,
           lifeCycleState = orElse (LifeCycleState fs) ''unknown'',
           numberOfMountTargets = orElse (NumberOfMountTargets fs) 0,
           sizeInBytes = (case SizeInBytes fs of None \<Rightarrow> 0 | Some sz \<Rightarrow> orElse (SizeValue sz) 0),
           performanceMode = orElse (PerformanceMode fs) ''generalPurpose'',
           throughputMode = orElse (ThroughputMode fs) ''bursting'',
           provisionedThroughputInMibps = ProvisionedThroughputInMibps fs,
           encrypted = orElse (Encrypted fs) False,
           fileSystemKmsKeyId = FileSystemKmsKeyId fs,
           fileSystemTags = nonEmptyTags tags \<rparr>)"


section \<open>SSM: getParameter, getParametersByPath (part_002)\<close>

record Parameter =
  ParameterName :: "string option"
  ParameterType :: "string option"
  ParameterValue :: "string option"
  ParameterVersion :: "int option"
  LastModifiedDate :: "int option"
  ParameterARN :: "string option"
  DataType :: "string option"

record SsmParameter =
  ssmName :: string
  ssmType :: string
  ssmValue :: string
  ssmVersion :: int
  lastModifiedDate :: "int option"
  ssmArn :: "string option"
  dataType :: "string option"

definition mapParameter :: "Parameter \<Rightarrow> bool \<Rightarrow> SsmParameter" where
  "mapParameter param withDecryption =
     (let isSecureString = (ParameterType param = Some ''SecureString'');
          val = orElse (ParameterValue param) [];
          val' = (if isSecureString \<and> \<not> withDecryption then ''********'' else val)
      in \<lparr> ssmName = orElse (ParameterName param) [],
           ssmType = orElse (ParameterType param) ''String'',
           ssmValue = val',
           ssmVersion = orElse (ParameterVersion param) 0,
           lastModifiedDate = LastModifiedDate param,
           ssmArn = ParameterARN param,
           dataType = DataType param \<rparr>)"


record GetParameterRequest =
  GetName :: string
  GetWithDecryption :: bool

record GetParameterResult =
  GetParameter :: "Parameter option"

definition getParameter ::
  "(string \<rightharpoonup> AwsAccount) \<Rightarrow> (FromTemporaryCredentialsOptions \<Rightarrow> 's) \<Rightarrow> int
     \<Rightarrow> ('s ClientConfig \<Rightarrow> (GetParameterRequest, GetParameterResult, 'v) send)
     \<Rightarrow> string \<Rightarrow> string \<Rightarrow> bool \<Rightarrow> 'v \<Rightarrow> (error + SsmParameter option) \<times> 'v" where
  "getParameter accounts ftc now getParameterCommand accountName pname withDecryption v =
     (case getClient accounts ftc now SSM accountName of
        Inl e \<Rightarrow> (Inl e, v)
      | Inr client \<Rightarrow>
          (case getParameterCommand client
                  \<lparr> GetName = pname, GetWithDecryption = withDecryption \<rparr> v of
             (Inl e, v') \<Rightarrow>
               if error_name e = ''ParameterNotFound'' then (Inr None, v') else (Inl e, v')
           | (Inr response, v') \<Rightarrow>
               (case GetParameter response of
                  None \<Rightarrow> (Inr None, v')
                | Some p \<Rightarrow> (Inr (Some (mapParameter p withDecryption)), v'))))"

record GetParametersByPathRequest =
  Path :: string
  Recursive :: bool
  WithDecryption :: bool
  NextToken :: "string option"

record GetParametersByPathResult =
  Parameters :: "Parameter list option"
  ResultNextToken :: "string option"

partial_function (option) getParametersByPath_loop ::
  "(GetParametersByPathRequest, GetParametersByPathResult, 'v) send \<Rightarrow> string \<Rightarrow> bool \<Rightarrow> bool
     \<Rightarrow> SsmParameter list \<Rightarrow> string option \<Rightarrow> 'v
     \<Rightarrow> ((error + SsmParameter list) \<times> 'v) option" where
  "getParametersByPath_loop send path recursive withDecryption parameters nextToken v =
     (case send \<lparr> Path = path, Recursive = recursive, WithDecryption = withDecryption,
                  NextToken = nextToken \<rparr> v of
        (Inl e, v') \<Rightarrow> Some (Inl e, v')
      | (Inr response, v') \<Rightarrow>
          (let parameters' =
                 parameters @ map (\<lambda>p. mapParameter p withDecryption) (orEmpty (Parameters response))
           in if truthy (ResultNextToken response)
              then getParametersByPath_loop send path recursive withDecryption parameters'
                     (ResultNextToken response) v'
              else Some (Inr parameters', v')))"

declare getParametersByPath_loop.simps [code]

definition getParametersByPath ::
  "(string \<rightharpoonup> AwsAccount) \<Rightarrow> (FromTemporaryCredentialsOptions \<Rightarrow> 's) \<Rightarrow> int
     \<Rightarrow> ('s ClientConfig \<Rightarrow> (GetParametersByPathRequest, GetParametersByPathResult, 'v) send)
     \<Rightarrow> string \<Rightarrow> string \<Rightarrow> bool \<Rightarrow> bool \<Rightarrow> 'v
     \<Rightarrow> ((error + SsmParameter list) \<times> 'v) option" where
  "getParametersByPath accounts ftc now getParametersByPathCommand accountName path recursive
       withDecryption v =
     (case getClient accounts ftc now SSM accountName of
        Inl e \<Rightarrow> Some (Inl e, v)
      | Inr client \<Rightarrow>
          getParametersByPath_loop (getParametersByPathCommand client) path recursive
            withDecryption [] None v)"


section \<open>ECR: listImages (part_002)\<close>

record ImageDetail =
  detailDigest :: "string option"
  detailTags :: "string list option"
  detailSizeInBytes :: "int option"
  detailPushedAt :: "int option"
  detailManifestMediaType :: "string option"
  detailLastRecordedPullTime :: "int option"
  detailArtifactMediaType :: "string option"

record EcrImage =
  repositoryName :: string
  imageDigest :: string
  imageTags :: "string list"
  imageSizeInBytes :: int
  imagePushedAt :: "int option"
  imageManifestMediaType :: "string option"
  lastRecordedPullTime :: "int option"
  artifactMediaType :: "string option"

definition mapImage :: "string \<Rightarrow> ImageDetail \<Rightarrow> EcrImage" where
  "mapImage repo img =
     \<lparr> repositoryName = repo,
       imageDigest = orElse (detailDigest img) [],
       imageTags = orEmpty (detailTags img),
       imageSizeInBytes = orElse (detailSizeInBytes img) 0,
       imagePushedAt = detailPushedAt img,
       imageManifestMediaType = detailManifestMediaType img,
       lastRecordedPullTime = detailLastRecordedPullTime img,
       artifactMediaType = detailArtifactMediaType img \<rparr>"

record DescribeImagesRequest =
  requestRepositoryName :: string
  requestNextToken :: "string option"
  requestMaxResults :: int

record DescribeImagesResponse =
  imageDetails :: "ImageDetail list option"
  responseNextToken :: "string option"

text \<open>
  \<open>maxResults\<close> is \<open>number | undefined\<close>, an integer here. As a condition it is falsy when
  absent or zero; \<open>maxResults ?? 100\<close> replaces only the absent one.
\<close>

definition truthyNumber :: "int option \<Rightarrow> bool" where
  "truthyNumber m = (case m of None \<Rightarrow> False | Some k \<Rightarrow> k \<noteq> 0)"

text \<open>\<open>images.slice(0, m)\<close>: a negative end counts from the end of the array.\<close>

definition slice0 :: "int \<Rightarrow> 'a list \<Rightarrow> 'a list" where
  "slice0 m xs = take (nat (if m < 0 then int (length xs) + m else m)) xs"

text \<open>
  The comparator \<open>dateB - dateA\<close> over \<open>imagePushedAt?.getTime() ?? 0\<close> orders by push time,
  newest first; \<open>Array.prototype.sort\<close> is stable, so images pushed at the same time keep
  their order. That is the insertion sort \<open>sort_key\<close> on the negated time.
\<close>

definition pushedTime :: "EcrImage \<Rightarrow> int" where
  "pushedTime a = orElse (imagePushedAt a) 0"

definition sortNewestFirst :: "EcrImage list \<Rightarrow> EcrImage list" where
  "sortNewestFirst images = sort_key (\<lambda>a. - pushedTime a) images"

partial_function (option) listImages_loop ::
  "(DescribeImagesRequest, DescribeImagesResponse, 'v) send \<Rightarrow> string \<Rightarrow> int option
     \<Rightarrow> EcrImage list \<Rightarrow> string option \<Rightarrow> 'v \<Rightarrow> ((error + EcrImage list) \<times> 'v) option" where
  "listImages_loop send repo maxResults images nextToken v =
     (case send \<lparr> requestRepositoryName = repo, requestNextToken = nextToken,
                  requestMaxResults = orElse maxResults 100 \<rparr> v of
        (Inl e, v') \<Rightarrow> Some (Inl e, v')
      | (Inr response, v') \<Rightarrow>
          (let images' = images @ map (mapImage repo) (orEmpty (imageDetails response))
           in if truthyNumber maxResults \<and> int (length images') \<ge> orElse maxResults 0
              then Some (Inr images', v')
              else if truthy (responseNextToken response)
              then listImages_loop send repo maxResults images' (responseNextToken response) v'
              else Some (Inr images', v')))"

declare listImages_loop.simps [code]

definition listImages ::
  "(string \<rightharpoonup> AwsAccount) \<Rightarrow> (FromTemporaryCredentialsOptions \<Rightarrow> 's) \<Rightarrow> int
     \<Rightarrow> ('s ClientConfig \<Rightarrow> (DescribeImagesRequest, DescribeImagesResponse, 'v) send)
     \<Rightarrow> string \<Rightarrow> string \<Rightarrow> int option \<Rightarrow> 'v \<Rightarrow> ((error + EcrImage list) \<times> 'v) option" where
  "listImages accounts ftc now describeImagesCommand accountName repo maxResults v =
     (case getClient accounts ftc now ECR accountName of
        Inl e \<Rightarrow> Some (Inl e, v)
      | Inr client \<Rightarrow>
          (case listImages_loop (describeImagesCommand client) repo maxResults [] None v of
             None \<Rightarrow> None
           | Some (Inl e, v') \<Rightarrow> Some (Inl e, v')
           | Some (Inr images, v') \<Rightarrow>
               (let ordered = sortNewestFirst images
                in Some (Inr (if truthyNumber maxResults then slice0 (orElse maxResults 0) ordered
                              else ordered), v'))))"


section \<open>Detail fetches in batches\<close>

text \<open>
  \<open>Promise.all\<close> over the promises of one batch. The outcomes are given in the order of
  the batch; \<open>rejections\<close> are the errors among them and \<open>fulfilled\<close> the values, both in
  that order.
\<close>

fun rejections :: "(error + 'a) list \<Rightarrow> error list" where
  "rejections [] = []"
| "rejections (Inl e # rs) = e # rejections rs"
| "rejections (Inr x # rs) = rejections rs"

fun fulfilled :: "(error + 'a) list \<Rightarrow> 'a list" where
  "fulfilled [] = []"
| "fulfilled (Inl e # rs) = fulfilled rs"
| "fulfilled (Inr x # rs) = x # fulfilled rs"

text \<open>
  When no promise rejects, \<open>Promise.all\<close> fulfils with the values in the order of the
  batch. When some reject, it rejects with the rejection that comes first in time. The
  promises of a batch run concurrently and the code does not determine which of them
  settles first, so the choice belongs to the environment: \<open>race\<close> gives, for the
  rejections of a batch, the position among them of the one that comes first.
\<close>

definition firstInTime :: "(error list \<Rightarrow> nat) \<Rightarrow> error list \<Rightarrow> error" where
  "firstInTime race es = es ! (race es mod length es)"

definition promiseAll :: "(error list \<Rightarrow> nat) \<Rightarrow> (error + 'a) list \<Rightarrow> error + 'a list" where
  "promiseAll race rs =
     (if rejections rs = [] then Inr (fulfilled rs)
      else Inl (firstInTime race (rejections rs)))"

text \<open>\<open>batchResults.filter(t => t !== undefined)\<close>.\<close>

fun defineds :: "'a option list \<Rightarrow> 'a list" where
  "defineds [] = []"
| "defineds (None # xs) = defineds xs"
| "defineds (Some x # xs) = x # defineds xs"

text \<open>
  The loop of \<open>listTablesWithDetails\<close> (part_001, lines 200 to 207) and of
  \<open>listBucketsWithDetails\<close> (S3Provider.ts, lines 236 to 243), which are the same but for
  the detail fetch: \<open>detail\<close> is \<open>name => this.getTable(accountName, name)\<close> or
  \<open>name => this.getBucket(accountName, name)\<close>, \<open>i\<close> the loop index and \<open>acc\<close> the array
  the results are pushed to. The batch size is the constant 5 of the source.

  Beside the outcome the function gives the batches it handed to \<open>Promise.all\<close>, in the
  order in which it awaited them: the next batch is built only after the \<open>await\<close> of the
  one before has returned, and the requests of one batch are the only ones in flight
  while it is awaited. A rejection of \<open>Promise.all\<close> is not caught: it leaves the loop
  and the operation, and the batches after the rejected one are never built.
\<close>

function detailsInBatches ::
  "(error list \<Rightarrow> nat) \<Rightarrow> ('a \<Rightarrow> error + 'b option) \<Rightarrow> 'a list \<Rightarrow> nat \<Rightarrow> 'b list
     \<Rightarrow> 'a list list \<Rightarrow> (error + 'b list) \<times> 'a list list" where
  "detailsInBatches race detail names i acc awaited =
     (if i < length names then
        (let batch = take 5 (drop i names)
         in case promiseAll race (map detail batch) of
              Inl e \<Rightarrow> (Inl e, awaited @ [batch])
            | Inr batchResults \<Rightarrow>
                detailsInBatches race detail names (i + 5) (acc @ defineds batchResults)
                  (awaited @ [batch]))
      else (Inr acc, awaited))"
  by pat_completeness auto
termination
  by (relation "measure (\<lambda>(race, detail, names, i, acc, awaited). length names - i)") auto

declare detailsInBatches.simps [simp del]




section \<open>DynamoDB: getTable, listTablesWithDetails (part_001)\<close>

text \<open>
  The describe requests of one table are functions of the request: inside a batch the
  requests of several tables are in flight together, and an answer is taken not to depend
  on the order in which they are sent.

  Of the table description \<open>getTable\<close> itself reads \<open>TableArn\<close>; the other fields are read
  by \<open>mapTable\<close> alone and are the component \<open>TableDetails\<close>. What \<open>mapTable\<close> computes
  from the description (lines 221 to 249, 254 and 255) is the parameter \<open>mapDescription\<close>;
  the five fields it takes from the enrichment are as in the source.
\<close>

record 'd TableDescription =
  TableArn :: "string option"
  TableDetails :: 'd

record 'd DescribeTableOutput =
  Table :: "'d TableDescription option"

record TimeToLiveDescription =
  TimeToLiveStatus :: "string option"
  AttributeName :: "string option"

record DescribeTimeToLiveOutput =
  TimeToLiveDescription :: "TimeToLiveDescription option"

record PointInTimeRecoveryDescription =
  PointInTimeRecoveryStatus :: "string option"
  LatestRestorableDateTime :: "int option"

record ContinuousBackupsDescription =
  PointInTimeRecoveryDescription :: "PointInTimeRecoveryDescription option"

record DescribeContinuousBackupsOutput =
  ContinuousBackupsDescription :: "ContinuousBackupsDescription option"

record ListTagsOfResourceOutput =
  ResourceTags :: "Tag list option"

record 'd DynamoDBCommands =
  DescribeTableCommand :: "string \<Rightarrow> error + 'd DescribeTableOutput"
  DescribeTimeToLiveCommand :: "string \<Rightarrow> error + DescribeTimeToLiveOutput"
  DescribeContinuousBackupsCommand :: "string \<Rightarrow> error + DescribeContinuousBackupsOutput"
  ListTagsOfResourceCommand :: "string option \<Rightarrow> error + ListTagsOfResourceOutput"

record 'p DynamoDbTable =
  tableDescription :: 'p
  ttlEnabled :: bool
  ttlAttributeName :: "string option"
  pitrEnabled :: bool
  latestRestorableDateTime :: "int option"
  tableTags :: "tags option"

definition mapTable ::
  "('d TableDescription \<Rightarrow> 'p) \<Rightarrow> 'd TableDescription \<Rightarrow> bool \<Rightarrow> string option \<Rightarrow> bool
     \<Rightarrow> int option \<Rightarrow> tags option \<Rightarrow> 'p DynamoDbTable" where
  "mapTable mapDescription table ttl ttlAttr pitr latest tgs =
     \<lparr> tableDescription = mapDescription table,
       ttlEnabled = ttl,
       ttlAttributeName = ttlAttr,
       pitrEnabled = pitr,
       latestRestorableDateTime = latest,
       tableTags = tgs \<rparr>"

definition getTable ::
  "(string \<rightharpoonup> AwsAccount) \<Rightarrow> (FromTemporaryCredentialsOptions \<Rightarrow> 's) \<Rightarrow> int
     \<Rightarrow> ('s ClientConfig \<Rightarrow> 'd DynamoDBCommands) \<Rightarrow> ('d TableDescription \<Rightarrow> 'p)
     \<Rightarrow> string \<Rightarrow> string \<Rightarrow> error + 'p DynamoDbTable option" where
  "getTable accounts ftc now vendor mapDescription accountName tableName =
     (case getClient accounts ftc now DynamoDB accountName of
        Inl e \<Rightarrow> Inl e
      | Inr client \<Rightarrow>
          (case DescribeTableCommand (vendor client) tableName of
             Inl e \<Rightarrow> if error_name e = ''ResourceNotFoundException'' then Inr None else Inl e
           | Inr response \<Rightarrow>
               (case Table response of
                  None \<Rightarrow> Inr None
                | Some table \<Rightarrow>
                    (let (ttl, ttlAttr) =
                           (case DescribeTimeToLiveCommand (vendor client) tableName of
                              Inl e \<Rightarrow> (False, None)
                            | Inr ttlResponse \<Rightarrow>
                                (case TimeToLiveDescription ttlResponse of
                                   None \<Rightarrow> (False, None)
                                 | Some d \<Rightarrow>
                                     (TimeToLiveStatus d = Some ''ENABLED'', AttributeName d)));
                         (pitr, latest) =
                           (case DescribeContinuousBackupsCommand (vendor client) tableName of
                              Inl e \<Rightarrow> (False, None)
                            | Inr pitrResponse \<Rightarrow>
                                (case ContinuousBackupsDescription pitrResponse of
                                   None \<Rightarrow> (False, None)
                                 | Some cb \<Rightarrow>
                                     (case PointInTimeRecoveryDescription cb of
                                        None \<Rightarrow> (False, None)
                                      | Some d \<Rightarrow>
                                          (PointInTimeRecoveryStatus d = Some ''ENABLED'',
                                           LatestRestorableDateTime d))));
                         tgs =
                           (case ListTagsOfResourceCommand (vendor client) (TableArn table) of
                              Inl e \<Rightarrow> None
                            | Inr tagsResponse \<Rightarrow> tagsIfListed (ResourceTags tagsResponse))
                     in Inr (Some (mapTable mapDescription table ttl ttlAttr pitr latest tgs))))))"

text \<open>
  \<open>listTablesWithDetails\<close> and \<open>listBucketsWithDetails\<close> build a client for the listing
  and one in every detail fetch. Each construction reads the clock for the session name
  handed to \<open>ftc\<close>; all readings made while one operation runs are the same \<open>now\<close> here.
\<close>

definition listTablesWithDetails ::
  "(string \<rightharpoonup> AwsAccount) \<Rightarrow> (FromTemporaryCredentialsOptions \<Rightarrow> 's) \<Rightarrow> int
     \<Rightarrow> ('s ClientConfig \<Rightarrow> (string option, ListTablesOutput, 'v) send)
     \<Rightarrow> ('s ClientConfig \<Rightarrow> 'd DynamoDBCommands) \<Rightarrow> ('d TableDescription \<Rightarrow> 'p)
     \<Rightarrow> (error list \<Rightarrow> nat) \<Rightarrow> string \<Rightarrow> 'v
     \<Rightarrow> (((error + 'p DynamoDbTable list) \<times> string list list) \<times> 'v) option" where
  "listTablesWithDetails accounts ftc now listTablesCommand vendor mapDescription race
       accountName v =
     (case listTables accounts ftc now listTablesCommand accountName v of
        None \<Rightarrow> None
      | Some (Inl e, v') \<Rightarrow> Some ((Inl e, []), v')
      | Some (Inr tableNames, v') \<Rightarrow>
          Some (detailsInBatches race
                  (\<lambda>name. getTable accounts ftc now vendor mapDescription accountName name)
                  tableNames 0 [] [], v'))"


section \<open>S3: getBucket, listBucketsWithDetails (S3Provider.ts)\<close>

text \<open>
  The requests are functions of the request, as for DynamoDB. A lifecycle rule is mapped
  by \<open>mapLifecycleRule\<close> (lines 271 to 313), which only shapes fields and is a parameter
  here, as is the type of the rules.
\<close>

record Bucket =
  BucketName :: "string option"
  CreationDate :: "int option"

record ListBucketsOutput =
  Buckets :: "Bucket list option"

record GetBucketLocationOutput =
  LocationConstraint :: "string option"

record GetBucketVersioningOutput =
  VersioningStatus :: "string option"
  MFADelete :: "string option"

record ServerSideEncryptionByDefault =
  SSEAlgorithm :: "string option"
  KMSMasterKeyID :: "string option"

record ServerSideEncryptionRule =
  ApplyServerSideEncryptionByDefault :: "ServerSideEncryptionByDefault option"

record ServerSideEncryptionConfiguration =
  EncryptionRules :: "ServerSideEncryptionRule list option"

record GetBucketEncryptionOutput =
  ServerSideEncryptionConfiguration :: "ServerSideEncryptionConfiguration option"

record 'lr GetBucketLifecycleConfigurationOutput =
  LifecycleRules :: "'lr list option"

record PublicAccessBlockConfiguration =
  BlockPublicAcls :: "bool option"
  BlockPublicPolicy :: "bool option"
  IgnorePublicAcls :: "bool option"
  RestrictPublicBuckets :: "bool option"

record GetPublicAccessBlockOutput =
  PublicAccessBlockConfiguration :: "PublicAccessBlockConfiguration option"

record PolicyStatus =
  IsPublic :: "bool option"

record GetBucketPolicyStatusOutput =
  PolicyStatus :: "PolicyStatus option"

record GetBucketTaggingOutput =
  TagSet :: "Tag list option"

record 'lr S3Commands =
  ListBucketsCommand :: "error + ListBucketsOutput"
  GetBucketLocationCommand :: "string \<Rightarrow> error + GetBucketLocationOutput"
  GetBucketVersioningCommand :: "string \<Rightarrow> error + GetBucketVersioningOutput"
  GetBucketEncryptionCommand :: "string \<Rightarrow> error + GetBucketEncryptionOutput"
  GetBucketLifecycleConfigurationCommand ::
    "string \<Rightarrow> error + 'lr GetBucketLifecycleConfigurationOutput"
  GetPublicAccessBlockCommand :: "string \<Rightarrow> error + GetPublicAccessBlockOutput"
  GetBucketPolicyStatusCommand :: "string \<Rightarrow> error + GetBucketPolicyStatusOutput"
  GetBucketTaggingCommand :: "string \<Rightarrow> error + GetBucketTaggingOutput"

record 'r S3Bucket =
  bucketName :: string
  creationDate :: "int option"
  bucketRegion :: "string option"
  versioningEnabled :: bool
  mfaDeleteEnabled :: bool
  encryptionEnabled :: bool
  encryptionType :: "string option"
  kmsKeyId :: "string option"
  lifecycleRules :: "'r list"
  publicAccessBlocked :: bool
  policyIsPublic :: bool
  bucketTags :: "tags option"

record EncryptionInfo =
  sseType :: string
  sseKmsKeyId :: "string option"

definition mapEncryptionRule :: "ServerSideEncryptionRule \<Rightarrow> EncryptionInfo" where
  "mapEncryptionRule rule =
     (case ApplyServerSideEncryptionByDefault rule of
        None \<Rightarrow> \<lparr> sseType = ''AES256'', sseKmsKeyId = None \<rparr>
      | Some sse \<Rightarrow>
          \<lparr> sseType = orElse (SSEAlgorithm sse) ''AES256'', sseKmsKeyId = KMSMasterKeyID sse \<rparr>)"

text \<open>
  \<open>getBucket\<close> fills the bucket in seven steps, each inside its own \<open>try\<close>; a step either
  fails at its request, before it has assigned anything, or completes. Each step is a
  function of the outcome of its request and of the bucket so far. The handlers of the
  first two steps are empty; those of the last five test the exception's name and do
  nothing in either case.
\<close>

definition regionStep :: "error + GetBucketLocationOutput \<Rightarrow> 'r S3Bucket \<Rightarrow> 'r S3Bucket" where
  "regionStep outcome bucket =
     (case outcome of
        Inl e \<Rightarrow> bucket
      | Inr r \<Rightarrow>
          bucket\<lparr> bucketRegion :=
                    Some (if truthy (LocationConstraint r) then orElse (LocationConstraint r) []
                          else ''us-east-1'') \<rparr>)"

definition versioningStep ::
  "error + GetBucketVersioningOutput \<Rightarrow> 'r S3Bucket \<Rightarrow> 'r S3Bucket" where
  "versioningStep outcome bucket =
     (case outcome of
        Inl e \<Rightarrow> bucket
      | Inr r \<Rightarrow>
          bucket\<lparr> versioningEnabled := (VersioningStatus r = Some ''Enabled''),
                  mfaDeleteEnabled := (MFADelete r = Some ''Enabled'') \<rparr>)"

definition encryptionStep ::
  "error + GetBucketEncryptionOutput \<Rightarrow> 'r S3Bucket \<Rightarrow> 'r S3Bucket" where
  "encryptionStep outcome bucket =
     (case outcome of
        Inl e \<Rightarrow>
          if error_name e \<noteq> ''ServerSideEncryptionConfigurationNotFoundError''
          then bucket else bucket
      | Inr r \<Rightarrow>
          (case (case ServerSideEncryptionConfiguration r of
                   None \<Rightarrow> []
                 | Some c \<Rightarrow> orEmpty (EncryptionRules c)) of
             [] \<Rightarrow> bucket
           | rule # rules \<Rightarrow>
               (let encryption = mapEncryptionRule rule
                in bucket\<lparr> encryptionEnabled := True,
                            encryptionType := Some (sseType encryption),
                            kmsKeyId := sseKmsKeyId encryption \<rparr>)))"

definition lifecycleStep ::
  "('lr \<Rightarrow> 'r) \<Rightarrow> error + 'lr GetBucketLifecycleConfigurationOutput \<Rightarrow> 'r S3Bucket
     \<Rightarrow> 'r S3Bucket" where
  "lifecycleStep mapLifecycleRule outcome bucket =
     (case outcome of
        Inl e \<Rightarrow> if error_name e \<noteq> ''NoSuchLifecycleConfiguration'' then bucket else bucket
      | Inr r \<Rightarrow>
          bucket\<lparr> lifecycleRules := map mapLifecycleRule (orEmpty (LifecycleRules r)) \<rparr>)"

definition publicAccessStep ::
  "error + GetPublicAccessBlockOutput \<Rightarrow> 'r S3Bucket \<Rightarrow> 'r S3Bucket" where
  "publicAccessStep outcome bucket =
     (case outcome of
        Inl e \<Rightarrow>
          if error_name e \<noteq> ''NoSuchPublicAccessBlockConfiguration'' then bucket else bucket
      | Inr r \<Rightarrow>
          bucket\<lparr> publicAccessBlocked :=
                    (case PublicAccessBlockConfiguration r of
                       None \<Rightarrow> False
                     | Some c \<Rightarrow>
                         BlockPublicAcls c = Some True \<and>
                         BlockPublicPolicy c = Some True \<and>
                         IgnorePublicAcls c = Some True \<and>
                         RestrictPublicBuckets c = Some True) \<rparr>)"

definition policyStatusStep ::
  "error + GetBucketPolicyStatusOutput \<Rightarrow> 'r S3Bucket \<Rightarrow> 'r S3Bucket" where
  "policyStatusStep outcome bucket =
     (case outcome of
        Inl e \<Rightarrow> if error_name e \<noteq> ''NoSuchBucketPolicy'' then bucket else bucket
      | Inr r \<Rightarrow>
          bucket\<lparr> policyIsPublic :=
                    (case PolicyStatus r of
                       None \<Rightarrow> False
                     | Some p \<Rightarrow> orElse (IsPublic p) False) \<rparr>)"

definition tagsStep :: "error + GetBucketTaggingOutput \<Rightarrow> 'r S3Bucket \<Rightarrow> 'r S3Bucket" where
  "tagsStep outcome bucket =
     (case outcome of
        Inl e \<Rightarrow> if error_name e \<noteq> ''NoSuchTagSet'' then bucket else bucket
      | Inr r \<Rightarrow>
          (case tagsIfListed (TagSet r) of
             None \<Rightarrow> bucket
           | Some tgs \<Rightarrow> bucket\<lparr> bucketTags := Some tgs \<rparr>))"

text \<open>
  \<open>getBucket\<close>: the object of lines 113 to 121, then the seven steps in the order of the
  source. Nothing in the outer \<open>try\<close> is left to raise, so its handler (lines 216 to 221)
  is never entered.
\<close>

definition getBucket ::
  "(string \<rightharpoonup> AwsAccount) \<Rightarrow> (FromTemporaryCredentialsOptions \<Rightarrow> 's) \<Rightarrow> int
     \<Rightarrow> ('s ClientConfig \<Rightarrow> 'lr S3Commands) \<Rightarrow> ('lr \<Rightarrow> 'r)
     \<Rightarrow> string \<Rightarrow> string \<Rightarrow> error + 'r S3Bucket option" where
  "getBucket accounts ftc now vendor mapLifecycleRule accountName bname =
     (case getClient accounts ftc now S3 accountName of
        Inl e \<Rightarrow> Inl e
      | Inr client \<Rightarrow>
          (let b0 = \<lparr> bucketName = bname, creationDate = None, bucketRegion = None,
                      versioningEnabled = False, mfaDeleteEnabled = False,
                      encryptionEnabled = False, encryptionType = None, kmsKeyId = None,
                      lifecycleRules = [], publicAccessBlocked = False,
                      policyIsPublic = False, bucketTags = None \<rparr>;
               b1 = regionStep (GetBucketLocationCommand (vendor client) bname) b0;
               b2 = versioningStep (GetBucketVersioningCommand (vendor client) bname) b1;
               b3 = encryptionStep (GetBucketEncryptionCommand (vendor client) bname) b2;
               b4 = lifecycleStep mapLifecycleRule
                      (GetBucketLifecycleConfigurationCommand (vendor client) bname) b3;
               b5 = publicAccessStep (GetPublicAccessBlockCommand (vendor client) bname) b4;
               b6 = policyStatusStep (GetBucketPolicyStatusCommand (vendor client) bname) b5;
               b7 = tagsStep (GetBucketTaggingCommand (vendor client) bname) b6
           in Inr (Some b7)))"

text \<open>For stating which exceptions a handler names: the outcome is a response, or an
  exception of the given name.\<close>

definition benignOrOk :: "string \<Rightarrow> error + 'a \<Rightarrow> bool" where
  "benignOrOk n outcome = (case outcome of Inl e \<Rightarrow> error_name e = n | Inr r \<Rightarrow> True)"

text \<open>\<open>(response.Buckets ?? []).map(b => b.Name).filter(name => !!name)\<close>\<close>

definition truthyNames :: "Bucket list \<Rightarrow> string list" where
  "truthyNames bs = concat (map (\<lambda>b. case BucketName b of
                                         None \<Rightarrow> []
                                       | Some n \<Rightarrow> if n \<noteq> [] then [n] else []) bs)"

definition listBucketsWithDetails ::
  "(string \<rightharpoonup> AwsAccount) \<Rightarrow> (FromTemporaryCredentialsOptions \<Rightarrow> 's) \<Rightarrow> int
     \<Rightarrow> ('s ClientConfig \<Rightarrow> 'lr S3Commands) \<Rightarrow> ('lr \<Rightarrow> 'r) \<Rightarrow> (error list \<Rightarrow> nat)
     \<Rightarrow> string \<Rightarrow> (error + 'r S3Bucket list) \<times> string list list" where
  "listBucketsWithDetails accounts ftc now vendor mapLifecycleRule race accountName =
     (case getClient accounts ftc now S3 accountName of
        Inl e \<Rightarrow> (Inl e, [])
      | Inr client \<Rightarrow>
          (case ListBucketsCommand (vendor client) of
             Inl e \<Rightarrow> (Inl e, [])
           | Inr response \<Rightarrow>
               detailsInBatches race
                 (\<lambda>name. getBucket accounts ftc now vendor mapLifecycleRule accountName name)
                 (truthyNames (orEmpty (Buckets response))) 0 [] []))"


section \<open>Example inputs\<close>

abbreviation prodAccount :: AwsAccount where
  "prodAccount \<equiv> \<lparr> name = ''prod'', accountId = ''111122223333'', region = ''eu-west-1'',
                    roleArn = ''arn:aws:iam::111122223333:role/backstage'',
                    externalId = Some ''backstage'' \<rparr>"

abbreviation oneAccount :: "string \<rightharpoonup> AwsAccount" where
  "oneAccount \<equiv> [''prod'' \<mapsto> prodAccount]"

abbreviation emptyBroker :: broker_state where
  "emptyBroker \<equiv> \<lparr> credentialsCache = Map.empty, exchanges = [] \<rparr>"

text \<open>A token service whose credentials carry the given expiry, and the lease made of
  them.\<close>

abbreviation stsExpiringAt :: "int option \<Rightarrow> sts" where
  "stsExpiringAt t \<equiv> (\<lambda>r ps. Inr \<lparr> Credentials = Some \<lparr> AccessKeyId = Some ''AKIA'',
       SecretAccessKey = Some ''secret'', SessionToken = Some ''token'', Expiration = t \<rparr> \<rparr>)"

abbreviation leaseExpiringAt :: "int option \<Rightarrow> AwsCredentialIdentity" where
  "leaseExpiringAt t \<equiv> \<lparr> accessKeyId = Some ''AKIA'', secretAccessKey = Some ''secret'',
       sessionToken = Some ''token'', expiration = t \<rparr>"


text \<open>Three pages of table names, of sizes 10, 10 and 4, linked by their cursors.\<close>

abbreviation tablePage1 :: ListTablesOutput where
  "tablePage1 \<equiv> \<lparr> TableNames = Some
      [''t01'', ''t02'', ''t03'', ''t04'', ''t05'', ''t06'', ''t07'', ''t08'', ''t09'', ''t10''],
      LastEvaluatedTableName = Some ''t10'' \<rparr>"

abbreviation tablePage2 :: ListTablesOutput where
  "tablePage2 \<equiv> \<lparr> TableNames = Some
      [''t11'', ''t12'', ''t13'', ''t14'', ''t15'', ''t16'', ''t17'', ''t18'', ''t19'', ''t20''],
      LastEvaluatedTableName = Some ''t20'' \<rparr>"

abbreviation tablePage3 :: ListTablesOutput where
  "tablePage3 \<equiv> \<lparr> TableNames = Some [''t21'', ''t22'', ''t23'', ''t24''],
      LastEvaluatedTableName = None \<rparr>"

abbreviation functionNamed :: "string \<Rightarrow> FunctionConfiguration" where
  "functionNamed n \<equiv> \<lparr> FunctionName = Some n, FunctionArn = None, Runtime = None,
      Handler = None, CodeSize = None, Description = None, Timeout = None, MemorySize = None,
      LastModified = None, Version = None, Environment = None \<rparr>"

abbreviation mappedFunctionNamed :: "string \<Rightarrow> LambdaFunction" where
  "mappedFunctionNamed n \<equiv> \<lparr> functionName = n, functionArn = [], runtime = None,
      handler = None, codeSize = 0, description = None, timeout = None, memorySize = None,
      lastModified = None, version = ''$LATEST'', environment = None, tags = None \<rparr>"

text \<open>Image details and their mapped images, by digest and push time.\<close>

abbreviation imagePushed :: "string \<Rightarrow> int \<Rightarrow> ImageDetail" where
  "imagePushed d t \<equiv> \<lparr> detailDigest = Some d, detailTags = None, detailSizeInBytes = None,
      detailPushedAt = Some t, detailManifestMediaType = None,
      detailLastRecordedPullTime = None, detailArtifactMediaType = None \<rparr>"

abbreviation mappedImagePushed :: "string \<Rightarrow> string \<Rightarrow> int \<Rightarrow> EcrImage" where
  "mappedImagePushed repo d t \<equiv> \<lparr> repositoryName = repo, imageDigest = d, imageTags = [],
      imageSizeInBytes = 0, imagePushedAt = Some t, imageManifestMediaType = None,
      lastRecordedPullTime = None, artifactMediaType = None \<rparr>"

abbreviation describeImagesRequest :: "string \<Rightarrow> int \<Rightarrow> string option \<Rightarrow> DescribeImagesRequest" where
  "describeImagesRequest repo k t \<equiv>
     \<lparr> requestRepositoryName = repo, requestNextToken = t, requestMaxResults = k \<rparr>"

text \<open>Parameters as the vendor returns them, by name, type and value.\<close>

abbreviation parameterOf :: "string \<Rightarrow> string \<Rightarrow> string \<Rightarrow> Parameter" where
  "parameterOf n t v \<equiv> \<lparr> ParameterName = Some n, ParameterType = Some t,
      ParameterValue = Some v, ParameterVersion = Some 1, LastModifiedDate = None,
      ParameterARN = None, DataType = None \<rparr>"

abbreviation ssmParameterOf :: "string \<Rightarrow> string \<Rightarrow> string \<Rightarrow> SsmParameter" where
  "ssmParameterOf n t v \<equiv> \<lparr> ssmName = n, ssmType = t, ssmValue = v, ssmVersion = 1,
      lastModifiedDate = None, ssmArn = None, dataType = None \<rparr>"


text \<open>Three pages of images, of sizes 10, 10 and 4, each image pushed later than the one
  before it.\<close>

abbreviation imagePage1 :: DescribeImagesResponse where
  "imagePage1 \<equiv> \<lparr> imageDetails = Some [
        imagePushed ''sha:01'' 1, imagePushed ''sha:02'' 2, imagePushed ''sha:03'' 3,
        imagePushed ''sha:04'' 4, imagePushed ''sha:05'' 5, imagePushed ''sha:06'' 6,
        imagePushed ''sha:07'' 7, imagePushed ''sha:08'' 8, imagePushed ''sha:09'' 9,
        imagePushed ''sha:10'' 10],
      responseNextToken = Some ''p1'' \<rparr>"

abbreviation imagePage2 :: DescribeImagesResponse where
  "imagePage2 \<equiv> \<lparr> imageDetails = Some [
        imagePushed ''sha:11'' 11, imagePushed ''sha:12'' 12, imagePushed ''sha:13'' 13,
        imagePushed ''sha:14'' 14, imagePushed ''sha:15'' 15, imagePushed ''sha:16'' 16,
        imagePushed ''sha:17'' 17, imagePushed ''sha:18'' 18, imagePushed ''sha:19'' 19,
        imagePushed ''sha:20'' 20],
      responseNextToken = Some ''p2'' \<rparr>"

abbreviation imagePage3 :: DescribeImagesResponse where
  "imagePage3 \<equiv> \<lparr> imageDetails = Some [
        imagePushed ''sha:21'' 21, imagePushed ''sha:22'' 22, imagePushed ''sha:23'' 23,
        imagePushed ''sha:24'' 24],
      responseNextToken = None \<rparr>"


text \<open>
  A DynamoDB vendor: the table \<open>t22\<close> does not exist; the time-to-live request is denied;
  recovery is enabled; every table carries one tag, whose value is the empty string. The
  description of a table is its name.
\<close>

abbreviation dynamoExample :: "string DynamoDBCommands" where
  "dynamoExample \<equiv>
     \<lparr> DescribeTableCommand =
         (\<lambda>n. if n = ''t22'' then Inl (VendorFailure ''ResourceNotFoundException'')
              else Inr \<lparr> Table = Some \<lparr> TableArn = Some (''arn:aws:dynamodb:table/'' @ n),
                                        TableDetails = n \<rparr> \<rparr>),
       DescribeTimeToLiveCommand = (\<lambda>n. Inl (VendorFailure ''AccessDeniedException'')),
       DescribeContinuousBackupsCommand =
         (\<lambda>n. Inr \<lparr> ContinuousBackupsDescription =
                      Some \<lparr> PointInTimeRecoveryDescription =
                               Some \<lparr> PointInTimeRecoveryStatus = Some ''ENABLED'',
                                      LatestRestorableDateTime = Some 900000 \<rparr> \<rparr> \<rparr>),
       ListTagsOfResourceCommand =
         (\<lambda>arn. Inr \<lparr> ResourceTags = Some [\<lparr> Key = Some ''backup'', Value = Some [] \<rparr>] \<rparr>) \<rparr>"

abbreviation tableExample :: "string \<Rightarrow> string DynamoDbTable" where
  "tableExample n \<equiv> \<lparr> tableDescription = n, ttlEnabled = False, ttlAttributeName = None,
      pitrEnabled = True, latestRestorableDateTime = Some 900000, tableTags = Some [] \<rparr>"

text \<open>
  An S3 vendor with the given buckets, in \<open>eu-west-1\<close>: the versioning request is denied,
  and encryption, lifecycle, public access block, policy and tags are not configured.
\<close>

abbreviation s3Example :: "string list \<Rightarrow> string S3Commands" where
  "s3Example names \<equiv>
     \<lparr> ListBucketsCommand =
         Inr \<lparr> Buckets = Some (map (\<lambda>n. \<lparr> BucketName = Some n, CreationDate = None \<rparr>) names) \<rparr>,
       GetBucketLocationCommand = (\<lambda>b. Inr \<lparr> LocationConstraint = Some ''eu-west-1'' \<rparr>),
       GetBucketVersioningCommand = (\<lambda>b. Inl (VendorFailure ''AccessDenied'')),
       GetBucketEncryptionCommand =
         (\<lambda>b. Inl (VendorFailure ''ServerSideEncryptionConfigurationNotFoundError'')),
       GetBucketLifecycleConfigurationCommand =
         (\<lambda>b. Inl (VendorFailure ''NoSuchLifecycleConfiguration'')),
       GetPublicAccessBlockCommand =
         (\<lambda>b. Inl (VendorFailure ''NoSuchPublicAccessBlockConfiguration'')),
       GetBucketPolicyStatusCommand = (\<lambda>b. Inl (VendorFailure ''NoSuchBucketPolicy'')),
       GetBucketTaggingCommand = (\<lambda>b. Inl (VendorFailure ''NoSuchTagSet'')) \<rparr>"

abbreviation bucketExample :: "string \<Rightarrow> string S3Bucket" where
  "bucketExample n \<equiv> \<lparr> bucketName = n, creationDate = None, bucketRegion = Some ''eu-west-1'',
      versioningEnabled = False, mfaDeleteEnabled = False, encryptionEnabled = False,
      encryptionType = None, kmsKeyId = None, lifecycleRules = [],
      publicAccessBlocked = False, policyIsPublic = False, bucketTags = None \<rparr>"







section \<open>The credentials provider: cache and renewal\<close>

lemma show_int_example: "show_int 1000000 = ''1000000''"
  by (simp add: show_int_def show_nat.simps)

lemma assumeRole_Inr:
  assumes "assumeRole sts tSession tStore accountName account s = (Inr lease, s')"
  shows "\<exists>response c. sts (region account) (assumeRoleParams account tSession) = Inr response \<and>
           Credentials response = Some c \<and> lease = leaseOf c \<and>
           exchanges s' = exchanges s @ [(region account, assumeRoleParams account tSession)] \<and>
           credentialsCache s' = (credentialsCache s)(accountName \<mapsto>
              \<lparr> credentials = lease,
                expiresAt = (case Expiration c of Some t \<Rightarrow> t | None \<Rightarrow> tStore + 3600000) \<rparr>)"
  using assms
  by (auto simp: assumeRole_def Let_def split: sum.splits option.splits)

lemma getCredentials_hit:
  assumes "accounts accountName = Some account"
    and "credentialsCache s accountName = Some cached"
    and "expiresAt cached > tCheck + 60000"
  shows "getCredentials accounts sts tCheck tSession tStore accountName s
           = (Inr (credentials cached), s)"
  using assms by (simp add: getCredentials_def)

lemma getCredentials_miss:
  assumes "accounts accountName = Some account"
    and "\<not> cacheHit s accountName tCheck"
  shows "getCredentials accounts sts tCheck tSession tStore accountName s
           = assumeRole sts tSession tStore accountName account s"
  using assms by (simp add: getCredentials_def cacheHit_def split: option.splits)

text \<open>
  C1, as the code has it. For an account of the registry, a lease that \<open>getCredentials\<close>
  returns is the credentials of the cache entry the account has afterwards. When the cache
  answered (its entry expires more than 60 seconds after the clock reading), nothing
  changed and no exchange was sent. Otherwise exactly one exchange was sent, the lease is
  made of the credentials it returned, and the entry expires when the exchange said, or an
  hour after the clock reading when it said nothing: that expiry is not compared with the
  clock. In both cases a later call, made at any time \<open>t1\<close> while the entry still expires
  more than 60 seconds after \<open>t1\<close>, returns the same lease and leaves the state, the list
  of exchanges included, as it is, whatever the token service would have answered.
\<close>

theorem getCredentials_lease:
  assumes acc: "accounts accountName = Some account"
    and run: "getCredentials accounts sts tCheck tSession tStore accountName s = (Inr lease, s')"
  shows "\<exists>entry. credentialsCache s' accountName = Some entry \<and> credentials entry = lease \<and>
           (if cacheHit s accountName tCheck
            then s' = s \<and> expiresAt entry > tCheck + 60000
            else exchanges s' = exchanges s @ [(region account, assumeRoleParams account tSession)] \<and>
                 (\<exists>response c. sts (region account) (assumeRoleParams account tSession) = Inr response \<and>
                      Credentials response = Some c \<and> lease = leaseOf c \<and>
                      expiresAt entry = (case Expiration c of Some t \<Rightarrow> t | None \<Rightarrow> tStore + 3600000))) \<and>
           (expiresAt entry > t1 + 60000 \<longrightarrow>
              getCredentials accounts sts2 t1 t2 t3 accountName s' = (Inr lease, s'))"
proof (cases "cacheHit s accountName tCheck")
  case True
  then obtain cached where c: "credentialsCache s accountName = Some cached"
    and f: "expiresAt cached > tCheck + 60000"
    by (cases "credentialsCache s accountName") (simp_all add: cacheHit_def)
  from getCredentials_hit [of accounts accountName account s cached tCheck sts tSession tStore]
    acc c f run
  have eq: "lease = credentials cached" "s' = s"
    by simp_all
  have again: "expiresAt cached > t1 + 60000 \<longrightarrow>
            getCredentials accounts sts2 t1 t2 t3 accountName s' = (Inr lease, s')"
    using getCredentials_hit [of accounts accountName account s cached t1 sts2 t2 t3] acc c eq
    by simp
  show ?thesis
    by (rule exI [of _ cached]) (use True c f eq again in simp)
next
  case False
  from getCredentials_miss [of accounts accountName account s tCheck sts tSession tStore]
    acc False run
  have "assumeRole sts tSession tStore accountName account s = (Inr lease, s')"
    by simp
  from assumeRole_Inr [OF this] obtain response c where
    r: "sts (region account) (assumeRoleParams account tSession) = Inr response"
      "Credentials response = Some c" "lease = leaseOf c"
      "exchanges s' = exchanges s @ [(region account, assumeRoleParams account tSession)]"
    and cache: "credentialsCache s' = (credentialsCache s)(accountName \<mapsto>
              \<lparr> credentials = lease,
                expiresAt = (case Expiration c of Some t \<Rightarrow> t | None \<Rightarrow> tStore + 3600000) \<rparr>)"
    by blast
  define entry where "entry = \<lparr> credentials = lease,
                expiresAt = (case Expiration c of Some t \<Rightarrow> t | None \<Rightarrow> tStore + 3600000) \<rparr>"
  have e: "credentialsCache s' accountName = Some entry" using cache by (simp add: entry_def)
  have again: "expiresAt entry > t1 + 60000 \<longrightarrow>
            getCredentials accounts sts2 t1 t2 t3 accountName s' = (Inr lease, s')"
    using getCredentials_hit [of accounts accountName account s' entry t1 sts2 t2 t3] acc e
    by (simp add: entry_def)
  have first: "\<exists>response c. sts (region account) (assumeRoleParams account tSession) = Inr response \<and>
                      Credentials response = Some c \<and> lease = leaseOf c \<and>
                      expiresAt entry = (case Expiration c of Some t \<Rightarrow> t | None \<Rightarrow> tStore + 3600000)"
    using r by (intro exI [of _ response] exI [of _ c]) (simp add: entry_def)
  have cr: "credentials entry = lease" by (simp add: entry_def)
  show ?thesis
    by (rule exI [of _ entry]) (use False e r(4) first again cr in simp)
qed

text \<open>
  The theorem at work: the first call for \<open>prod\<close> at time 1000000 finds the cache empty,
  sends one exchange and stores a lease expiring at 4600000; a second call half a second
  later returns the same lease and sends nothing.
\<close>

theorem getCredentials_lease_witness:
  "oneAccount ''prod'' = Some prodAccount \<and>
   getCredentials oneAccount (stsExpiringAt (Some 4600000)) 1000000 1000000 1000000 ''prod''
       emptyBroker
     = (Inr (leaseExpiringAt (Some 4600000)),
        \<lparr> credentialsCache =
            [''prod'' \<mapsto> \<lparr> credentials = leaseExpiringAt (Some 4600000), expiresAt = 4600000 \<rparr>],
          exchanges = [(''eu-west-1'', assumeRoleParams prodAccount 1000000)] \<rparr>) \<and>
   \<not> cacheHit emptyBroker ''prod'' 1000000 \<and>
   getCredentials oneAccount (stsExpiringAt None) 1000500 1000500 1000500 ''prod''
       \<lparr> credentialsCache =
            [''prod'' \<mapsto> \<lparr> credentials = leaseExpiringAt (Some 4600000), expiresAt = 4600000 \<rparr>],
          exchanges = [(''eu-west-1'', assumeRoleParams prodAccount 1000000)] \<rparr>
     = (Inr (leaseExpiringAt (Some 4600000)),
        \<lparr> credentialsCache =
            [''prod'' \<mapsto> \<lparr> credentials = leaseExpiringAt (Some 4600000), expiresAt = 4600000 \<rparr>],
          exchanges = [(''eu-west-1'', assumeRoleParams prodAccount 1000000)] \<rparr>)"
proof -
  let ?s1 = "\<lparr> credentialsCache =
            [''prod'' \<mapsto> \<lparr> credentials = leaseExpiringAt (Some 4600000), expiresAt = 4600000 \<rparr>],
          exchanges = [(''eu-west-1'', assumeRoleParams prodAccount 1000000)] \<rparr>"
  have acc: "oneAccount ''prod'' = Some prodAccount" by simp
  have run: "getCredentials oneAccount (stsExpiringAt (Some 4600000)) 1000000 1000000 1000000
               ''prod'' emptyBroker = (Inr (leaseExpiringAt (Some 4600000)), ?s1)"
    by (simp add: getCredentials_def assumeRole_def leaseOf_def Let_def)
  have miss: "\<not> cacheHit emptyBroker ''prod'' 1000000" by (simp add: cacheHit_def)
  from getCredentials_lease [OF acc run, of 1000500 "stsExpiringAt None" 1000500 1000500]
  have "getCredentials oneAccount (stsExpiringAt None) 1000500 1000500 1000500 ''prod'' ?s1
          = (Inr (leaseExpiringAt (Some 4600000)), ?s1)"
    by auto
  with acc run miss show ?thesis by blast
qed

text \<open>
  The claim as stated fails when the exchange reports an expiry that is less than 60
  seconds away: at time 1000000 the token service answers with credentials expiring at
  1030000, and \<open>getCredentials\<close> stores and returns them.
\<close>

theorem getCredentials_unchecked_expiry:
  "getCredentials oneAccount (stsExpiringAt (Some 1030000)) 1000000 1000000 1000000 ''prod''
       emptyBroker
     = (Inr (leaseExpiringAt (Some 1030000)),
        \<lparr> credentialsCache =
            [''prod'' \<mapsto> \<lparr> credentials = leaseExpiringAt (Some 1030000), expiresAt = 1030000 \<rparr>],
          exchanges = [(''eu-west-1'', assumeRoleParams prodAccount 1000000)] \<rparr>)
   \<and> \<not> (1030000 > (1000000::int) + 60000)"
  by (simp add: getCredentials_def assumeRole_def leaseOf_def Let_def)


section \<open>Clients: what they are bound to, and unknown accounts\<close>

text \<open>
  C7, as the code has it. For an account of the registry and any service, \<open>getClient\<close>
  builds a client bound to the account's region and to the supplier that the SDK's
  \<open>fromTemporaryCredentials\<close> makes of the account's role, a session name fixed when the
  client is built, the duration of one hour, the external id when it is truthy, and the
  account's region. The supplier is built from the account and the clock alone: the
  credentials cache is no argument of \<open>getClient\<close>, and \<open>getCredentials\<close> is not called.
\<close>

theorem getClient_binding:
  assumes "accounts accountName = Some account"
  shows "getClient accounts ftc now svc accountName =
           Inr \<lparr> clientService = svc,
                 clientRegion = region account,
                 clientCredentials =
                   ftc \<lparr> params = \<lparr> RoleArn = roleArn account,
                                     RoleSessionName = ''backstage-aws-plugin-'' @ show_int now,
                                     DurationSeconds = 3600,
                                     ExternalId = (if truthy (externalId account)
                                                   then externalId account else None) \<rparr>,
                         clientConfigRegion = region account \<rparr> \<rparr>"
  using assms
  by (simp add: getClient_def getAccount_def getCredentialsProvider_def assumeRoleParams_def)

theorem getClient_binding_witness:
  "oneAccount ''prod'' = Some prodAccount \<and>
   getClient oneAccount (\<lambda>opts. opts) 1000000 Lambda ''prod'' =
     Inr \<lparr> clientService = Lambda,
           clientRegion = ''eu-west-1'',
           clientCredentials =
             \<lparr> params = \<lparr> RoleArn = ''arn:aws:iam::111122223333:role/backstage'',
                           RoleSessionName = ''backstage-aws-plugin-1000000'',
                           DurationSeconds = 3600,
                           ExternalId = Some ''backstage'' \<rparr>,
               clientConfigRegion = ''eu-west-1'' \<rparr> \<rparr>"
  using getClient_binding [of oneAccount "''prod''" prodAccount "\<lambda>opts. opts" 1000000 Lambda]
  by (simp add: truthy_def show_int_example)

text \<open>
  The claim as stated fails: the supplier does not go through \<open>getCredentials\<close> and its
  cache. With a lease for \<open>prod\<close> in the cache that is good until 4600000, at time 1000000
  \<open>getCredentials\<close> returns that lease and sends nothing, while the supplier of a client
  built for \<open>prod\<close>, when asked, sends an exchange of its own and hands out what it
  returns.
\<close>

theorem getClient_supplier_not_resolve:
  "(case getClient oneAccount sdkTemporaryCredentials 1000000 Lambda ''prod'' of
      Inl e \<Rightarrow> None
    | Inr client \<Rightarrow>
        Some (clientCredentials client (stsExpiringAt (Some 9000000))
                \<lparr> credentialsCache =
                    [''prod'' \<mapsto> \<lparr> credentials = leaseExpiringAt (Some 4600000),
                                  expiresAt = 4600000 \<rparr>],
                  exchanges = [] \<rparr>))
     = Some (Inr (leaseExpiringAt (Some 9000000)),
             \<lparr> credentialsCache =
                 [''prod'' \<mapsto> \<lparr> credentials = leaseExpiringAt (Some 4600000),
                               expiresAt = 4600000 \<rparr>],
               exchanges = [(''eu-west-1'', assumeRoleParams prodAccount 1000000)] \<rparr>) \<and>
   getCredentials oneAccount (stsExpiringAt (Some 9000000)) 1000000 1000000 1000000 ''prod''
       \<lparr> credentialsCache =
           [''prod'' \<mapsto> \<lparr> credentials = leaseExpiringAt (Some 4600000), expiresAt = 4600000 \<rparr>],
         exchanges = [] \<rparr>
     = (Inr (leaseExpiringAt (Some 4600000)),
        \<lparr> credentialsCache =
            [''prod'' \<mapsto> \<lparr> credentials = leaseExpiringAt (Some 4600000), expiresAt = 4600000 \<rparr>],
          exchanges = [] \<rparr>) \<and>
   leaseExpiringAt (Some 9000000) \<noteq> leaseExpiringAt (Some 4600000)"
  by (simp add: getClient_def getAccount_def getCredentialsProvider_def
      sdkTemporaryCredentials_def getCredentials_def leaseOf_def Let_def)

text \<open>
  C8. For an account name that is not in the registry, credential resolution, the
  construction of the supplier and of a client, and every list and get operation fail
  with the unknown-account error. The cache and the list of exchanges are as before, and
  so is the vendor's state: no request was sent. The operations whose requests are
  functions rather than steps of a state fail whatever the vendor would answer.
\<close>

theorem unknown_account:
  assumes "accounts accountName = None"
  shows "getCredentials accounts sts tCheck tSession tStore accountName s
           = (Inl (UnknownAccount accountName), s) \<and>
         getCredentialsProvider accounts ftc now accountName = Inl (UnknownAccount accountName) \<and>
         getClient accounts ftc now svc accountName = Inl (UnknownAccount accountName) \<and>
         listTables accounts ftc now listTablesC accountName v1
           = Some (Inl (UnknownAccount accountName), v1) \<and>
         listFunctions accounts ftc now listFunctionsC accountName v2
           = Some (Inl (UnknownAccount accountName), v2) \<and>
         getFunction accounts ftc now getFunctionC accountName fname v3
           = (Inl (UnknownAccount accountName), v3) \<and>
         getParameter accounts ftc now getParameterC accountName pname wd v4
           = (Inl (UnknownAccount accountName), v4) \<and>
         getParametersByPath accounts ftc now byPathC accountName path rec wd v5
           = Some (Inl (UnknownAccount accountName), v5) \<and>
         listImages accounts ftc now describeImagesC accountName repo maxResults v6
           = Some (Inl (UnknownAccount accountName), v6) \<and>
         getTable accounts ftc now dynamo mapDescription accountName tableName
           = Inl (UnknownAccount accountName) \<and>
         listTablesWithDetails accounts ftc now listTablesC dynamo mapDescription race
             accountName v1
           = Some ((Inl (UnknownAccount accountName), []), v1) \<and>
         getBucket accounts ftc now s3 mapRule accountName bname
           = Inl (UnknownAccount accountName) \<and>
         listBucketsWithDetails accounts ftc now s3 mapRule race accountName
           = (Inl (UnknownAccount accountName), [])"
proof -
  have c: "getClient accounts ftc now svc accountName = Inl (UnknownAccount accountName)"
    for svc
    using assms by (simp add: getClient_def getAccount_def)
  have lt: "listTables accounts ftc now listTablesC accountName v1
           = Some (Inl (UnknownAccount accountName), v1)"
    by (simp add: listTables_def c)
  show ?thesis
    using assms lt
    by (simp add: c getCredentials_def getCredentialsProvider_def listFunctions_def
        getFunction_def getParameter_def getParametersByPath_def listImages_def getTable_def
        listTablesWithDetails_def getBucket_def listBucketsWithDetails_def)
qed

text \<open>The account \<open>staging\<close> is not in the registry: a listing for it fails and leaves
  the vendor's script of two pages untouched.\<close>

theorem unknown_account_witness:
  "oneAccount ''staging'' = None \<and>
   getCredentials oneAccount (stsExpiringAt None) 1000000 1000000 1000000 ''staging'' emptyBroker
     = (Inl (UnknownAccount ''staging''), emptyBroker) \<and>
   getClient oneAccount sdkTemporaryCredentials 1000000 ECR ''staging''
     = Inl (UnknownAccount ''staging'') \<and>
   listTables oneAccount sdkTemporaryCredentials 1000000 (\<lambda>client. scripted) ''staging''
       \<lparr> pending = [Inr \<lparr> TableNames = Some [''orders''], LastEvaluatedTableName = Some ''orders'' \<rparr>,
                    Inr \<lparr> TableNames = Some [''users''], LastEvaluatedTableName = None \<rparr>],
         received = [] \<rparr>
     = Some (Inl (UnknownAccount ''staging''),
         \<lparr> pending = [Inr \<lparr> TableNames = Some [''orders''], LastEvaluatedTableName = Some ''orders'' \<rparr>,
                      Inr \<lparr> TableNames = Some [''users''], LastEvaluatedTableName = None \<rparr>],
           received = [] \<rparr>)"
proof -
  have a: "oneAccount ''staging'' = None" by simp
  note u = unknown_account [where accounts = oneAccount and accountName = "''staging''"
      and sts = "stsExpiringAt None" and tCheck = 1000000 and tSession = 1000000
      and tStore = 1000000 and s = emptyBroker and ftc = sdkTemporaryCredentials
      and now = 1000000 and svc = ECR and listTablesC = "\<lambda>client. scripted"
      and ?v1.0 = "\<lparr> pending = [Inr \<lparr> TableNames = Some [''orders''],
                                       LastEvaluatedTableName = Some ''orders'' \<rparr>,
                                  Inr \<lparr> TableNames = Some [''users''],
                                       LastEvaluatedTableName = None \<rparr>],
                     received = [] \<rparr>", OF a]
  from a u [THEN conjunct1] u [THEN conjunct2, THEN conjunct2, THEN conjunct1]
    u [THEN conjunct2, THEN conjunct2, THEN conjunct2, THEN conjunct1]
  show ?thesis by simp
qed



section \<open>Paginated listings\<close>

lemma scripted_next:
  "scripted q \<lparr>pending = r # rs, received = log\<rparr> = (r, \<lparr>pending = rs, received = log @ [q]\<rparr>)"
  by (simp add: scripted_def)

lemma listTables_loop_scripted:
  "list_all (\<lambda>p. truthy (LastEvaluatedTableName p)) ps \<Longrightarrow>
   \<not> truthy (LastEvaluatedTableName q) \<Longrightarrow>
   listTables_loop scripted acc c \<lparr>pending = map Inr (ps @ [q]) @ rest, received = log\<rparr>
   = Some (Inr (acc @ concat (map (\<lambda>p. orEmpty (TableNames p)) (ps @ [q]))),
           \<lparr>pending = rest, received = log @ c # map LastEvaluatedTableName ps\<rparr>)"
proof (induction ps arbitrary: acc c log)
  case Nil
  then show ?case
    by (subst listTables_loop.simps) (simp add: scripted_next)
next
  case (Cons p ps)
  then show ?case
    by (subst listTables_loop.simps) (simp add: scripted_next Let_def)
qed

lemma listFunctions_loop_scripted:
  "list_all (\<lambda>p. truthy (NextMarker p)) ps \<Longrightarrow> \<not> truthy (NextMarker q) \<Longrightarrow>
   listFunctions_loop scripted acc c \<lparr>pending = map Inr (ps @ [q]) @ rest, received = log\<rparr>
   = Some (Inr (acc @ map mapFunction (concat (map (\<lambda>p. orEmpty (Functions p)) (ps @ [q])))),
           \<lparr>pending = rest, received = log @ c # map NextMarker ps\<rparr>)"
proof (induction ps arbitrary: acc c log)
  case Nil
  then show ?case
    by (subst listFunctions_loop.simps) (simp add: scripted_next)
next
  case (Cons p ps)
  then show ?case
    by (subst listFunctions_loop.simps) (simp add: scripted_next Let_def)
qed

lemma getParametersByPath_loop_scripted:
  "list_all (\<lambda>p. truthy (ResultNextToken p)) ps \<Longrightarrow> \<not> truthy (ResultNextToken q) \<Longrightarrow>
   getParametersByPath_loop scripted path r wd acc c
     \<lparr>pending = map Inr (ps @ [q]) @ rest, received = log\<rparr>
   = Some (Inr (acc @ map (\<lambda>p. mapParameter p wd)
                        (concat (map (\<lambda>p. orEmpty (Parameters p)) (ps @ [q])))),
           \<lparr>pending = rest,
            received = log @ map (\<lambda>t. \<lparr> Path = path, Recursive = r, WithDecryption = wd,
                                         NextToken = t \<rparr>)
                                (c # map ResultNextToken ps)\<rparr>)"
proof (induction ps arbitrary: acc c log)
  case Nil
  then show ?case
    by (subst getParametersByPath_loop.simps) (simp add: scripted_next)
next
  case (Cons p ps)
  then show ?case
    by (subst getParametersByPath_loop.simps) (simp add: scripted_next Let_def)
qed

lemma listImages_loop_scripted_unbounded:
  "\<not> truthyNumber m \<Longrightarrow>
   list_all (\<lambda>p. truthy (responseNextToken p)) ps \<Longrightarrow> \<not> truthy (responseNextToken q) \<Longrightarrow>
   listImages_loop scripted repo m acc c
     \<lparr>pending = map Inr (ps @ [q]) @ rest, received = log\<rparr>
   = Some (Inr (acc @ map (mapImage repo)
                        (concat (map (\<lambda>p. orEmpty (imageDetails p)) (ps @ [q])))),
           \<lparr>pending = rest,
            received = log @ map (describeImagesRequest repo (orElse m 100))
                                (c # map responseNextToken ps)\<rparr>)"
proof (induction ps arbitrary: acc c log)
  case Nil
  then show ?case
    by (subst listImages_loop.simps) (simp add: scripted_next)
next
  case (Cons p ps)
  then show ?case
    by (subst listImages_loop.simps) (simp add: scripted_next Let_def)
qed

lemma listImages_loop_scripted_bounded:
  "0 < k \<Longrightarrow>
   list_all (\<lambda>p. truthy (responseNextToken p)) ps \<Longrightarrow>
   int (length acc + length (concat (map (\<lambda>p. orEmpty (imageDetails p)) ps))) < k \<Longrightarrow>
   \<not> truthy (responseNextToken q) \<or>
     k \<le> int (length acc + length (concat (map (\<lambda>p. orEmpty (imageDetails p)) (ps @ [q])))) \<Longrightarrow>
   listImages_loop scripted repo (Some k) acc c
     \<lparr>pending = map Inr (ps @ [q]) @ rest, received = log\<rparr>
   = Some (Inr (acc @ map (mapImage repo)
                        (concat (map (\<lambda>p. orEmpty (imageDetails p)) (ps @ [q])))),
           \<lparr>pending = rest,
            received = log @ map (describeImagesRequest repo k) (c # map responseNextToken ps)\<rparr>)"
proof (induction ps arbitrary: acc c log)
  case Nil
  then show ?case
    by (subst listImages_loop.simps)
       (auto simp add: scripted_next Let_def truthyNumber_def orElse_def)
next
  case (Cons p ps)
  from Cons.prems have cont: "\<not> k \<le> int (length acc + length (orEmpty (imageDetails p)))"
    by simp
  have ih: "listImages_loop scripted repo (Some k)
              (acc @ map (mapImage repo) (orEmpty (imageDetails p))) (responseNextToken p)
              \<lparr>pending = map Inr (ps @ [q]) @ rest,
               received = log @ [describeImagesRequest repo k c]\<rparr>
            = Some (Inr ((acc @ map (mapImage repo) (orEmpty (imageDetails p))) @
                      map (mapImage repo)
                        (concat (map (\<lambda>p. orEmpty (imageDetails p)) (ps @ [q])))),
           \<lparr>pending = rest,
            received = (log @ [describeImagesRequest repo k c]) @
                map (describeImagesRequest repo k)
                  (responseNextToken p # map responseNextToken ps)\<rparr>)"
    using Cons.prems by (intro Cons.IH) (auto simp: add.assoc)
  show ?case
    using Cons.prems cont ih
    by (subst listImages_loop.simps)
       (simp add: scripted_next Let_def truthyNumber_def orElse_def)
qed

text \<open>
  C2, as the code has it. Let the vendor answer a listing with any pages of which the last
  has no cursor (an absent or an empty one) and every other has one. Then \<open>listTables\<close>,
  \<open>listFunctions\<close> and \<open>getParametersByPath\<close> return, with the items of all pages in the
  order of the pages, the functions and the parameters mapped one by one. The vendor has
  received one request per page: the first with no cursor, each later one with the cursor
  of the page before. What the vendor holds beyond the last page is not asked for.
  \<open>listImages\<close> without a ceiling (none, or zero) sends its requests in the same way, but
  what it returns is the images of all pages sorted by push time, the newest first.
\<close>

theorem paginated_listing:
  assumes "accounts accountName = Some account"
    and "list_all (\<lambda>p. truthy (LastEvaluatedTableName p)) tps"
    and "\<not> truthy (LastEvaluatedTableName tq)"
    and "list_all (\<lambda>p. truthy (NextMarker p)) fps"
    and "\<not> truthy (NextMarker fq)"
    and "list_all (\<lambda>p. truthy (ResultNextToken p)) pps"
    and "\<not> truthy (ResultNextToken pq)"
    and "list_all (\<lambda>p. truthy (responseNextToken p)) ips"
    and "\<not> truthy (responseNextToken iq)"
    and "\<not> truthyNumber maxResults"
  shows "listTables accounts ftc now (\<lambda>client. scripted) accountName
             \<lparr>pending = map Inr (tps @ [tq]) @ trest, received = []\<rparr>
           = Some (Inr (concat (map (\<lambda>p. orEmpty (TableNames p)) (tps @ [tq]))),
                   \<lparr>pending = trest, received = None # map LastEvaluatedTableName tps\<rparr>) \<and>
         listFunctions accounts ftc now (\<lambda>client. scripted) accountName
             \<lparr>pending = map Inr (fps @ [fq]) @ frest, received = []\<rparr>
           = Some (Inr (map mapFunction (concat (map (\<lambda>p. orEmpty (Functions p)) (fps @ [fq])))),
                   \<lparr>pending = frest, received = None # map NextMarker fps\<rparr>) \<and>
         getParametersByPath accounts ftc now (\<lambda>client. scripted) accountName path r wd
             \<lparr>pending = map Inr (pps @ [pq]) @ prest, received = []\<rparr>
           = Some (Inr (map (\<lambda>p. mapParameter p wd)
                          (concat (map (\<lambda>p. orEmpty (Parameters p)) (pps @ [pq])))),
                   \<lparr>pending = prest,
                    received = map (\<lambda>t. \<lparr> Path = path, Recursive = r, WithDecryption = wd,
                                           NextToken = t \<rparr>)
                                 (None # map ResultNextToken pps)\<rparr>) \<and>
         listImages accounts ftc now (\<lambda>client. scripted) accountName repo maxResults
             \<lparr>pending = map Inr (ips @ [iq]) @ irest, received = []\<rparr>
           = Some (Inr (sortNewestFirst
                          (map (mapImage repo)
                             (concat (map (\<lambda>p. orEmpty (imageDetails p)) (ips @ [iq]))))),
                   \<lparr>pending = irest,
                    received = map (describeImagesRequest repo (orElse maxResults 100))
                                 (None # map responseNextToken ips)\<rparr>)"
proof -
  have c: "getClient accounts ftc now svc accountName =
             Inr \<lparr> clientService = svc, clientRegion = region account,
                   clientCredentials =
                     ftc \<lparr> params = assumeRoleParams account now,
                           clientConfigRegion = region account \<rparr> \<rparr>" for svc
    using assms(1) by (simp add: getClient_def getAccount_def getCredentialsProvider_def)
  have t: "listTables accounts ftc now (\<lambda>client. scripted) accountName
             \<lparr>pending = map Inr (tps @ [tq]) @ trest, received = []\<rparr>
           = Some (Inr (concat (map (\<lambda>p. orEmpty (TableNames p)) (tps @ [tq]))),
                   \<lparr>pending = trest, received = None # map LastEvaluatedTableName tps\<rparr>)"
    using listTables_loop_scripted [OF assms(2,3), of "[]" None trest "[]"]
    by (simp add: listTables_def c)
  have f: "listFunctions accounts ftc now (\<lambda>client. scripted) accountName
             \<lparr>pending = map Inr (fps @ [fq]) @ frest, received = []\<rparr>
           = Some (Inr (map mapFunction (concat (map (\<lambda>p. orEmpty (Functions p)) (fps @ [fq])))),
                   \<lparr>pending = frest, received = None # map NextMarker fps\<rparr>)"
    using listFunctions_loop_scripted [OF assms(4,5), of "[]" None frest "[]"]
    by (simp add: listFunctions_def c)
  have p: "getParametersByPath accounts ftc now (\<lambda>client. scripted) accountName path r wd
             \<lparr>pending = map Inr (pps @ [pq]) @ prest, received = []\<rparr>
           = Some (Inr (map (\<lambda>p. mapParameter p wd)
                          (concat (map (\<lambda>p. orEmpty (Parameters p)) (pps @ [pq])))),
                   \<lparr>pending = prest,
                    received = map (\<lambda>t. \<lparr> Path = path, Recursive = r, WithDecryption = wd,
                                           NextToken = t \<rparr>)
                                 (None # map ResultNextToken pps)\<rparr>)"
    using getParametersByPath_loop_scripted [OF assms(6,7), of path r wd "[]" None prest "[]"]
    by (simp add: getParametersByPath_def c)
  have i: "listImages accounts ftc now (\<lambda>client. scripted) accountName repo maxResults
             \<lparr>pending = map Inr (ips @ [iq]) @ irest, received = []\<rparr>
           = Some (Inr (sortNewestFirst
                          (map (mapImage repo)
                             (concat (map (\<lambda>p. orEmpty (imageDetails p)) (ips @ [iq]))))),
                   \<lparr>pending = irest,
                    received = map (describeImagesRequest repo (orElse maxResults 100))
                                 (None # map responseNextToken ips)\<rparr>)"
    using listImages_loop_scripted_unbounded [OF assms(10,8,9), of repo "[]" None irest "[]"]
      assms(10)
    by (simp add: listImages_def c Let_def)
  from t f p i show ?thesis by (simp only: simp_thms)
qed

text \<open>Pages of sizes 10, 10 and 4 give the 24 names from three requests; two pages of
  functions give both functions from two requests, and two pages of parameters both
  parameters. Two pages of one image each give both images from two requests, the one
  of the second page first, as it was pushed later.\<close>

theorem paginated_listing_witness:
  "listTables oneAccount sdkTemporaryCredentials 1000000 (\<lambda>client. scripted) ''prod''
       \<lparr>pending = [Inr tablePage1, Inr tablePage2, Inr tablePage3], received = []\<rparr>
     = Some (Inr [''t01'', ''t02'', ''t03'', ''t04'', ''t05'', ''t06'', ''t07'', ''t08'', ''t09'', ''t10'', ''t11'', ''t12'', ''t13'', ''t14'', ''t15'', ''t16'', ''t17'', ''t18'', ''t19'', ''t20'', ''t21'', ''t22'', ''t23'', ''t24''],
             \<lparr>pending = [], received = [None, Some ''t10'', Some ''t20'']\<rparr>) \<and>
   listFunctions oneAccount sdkTemporaryCredentials 1000000 (\<lambda>client. scripted) ''prod''
       \<lparr>pending = [Inr \<lparr> Functions = Some [functionNamed ''resize''], NextMarker = Some ''m1'' \<rparr>,
                    Inr \<lparr> Functions = Some [functionNamed ''notify''], NextMarker = Some [] \<rparr>],
         received = []\<rparr>
     = Some (Inr [mappedFunctionNamed ''resize'', mappedFunctionNamed ''notify''],
             \<lparr>pending = [], received = [None, Some ''m1'']\<rparr>) \<and>
   getParametersByPath oneAccount sdkTemporaryCredentials 1000000 (\<lambda>client. scripted) ''prod''
       ''/app'' True True
       \<lparr>pending = [Inr \<lparr> Parameters = Some [parameterOf ''/app/zeta'' ''String'' ''1''],
                         ResultNextToken = Some ''n1'' \<rparr>,
                    Inr \<lparr> Parameters = Some [parameterOf ''/app/alpha'' ''String'' ''2''],
                         ResultNextToken = None \<rparr>],
         received = []\<rparr>
     = Some (Inr [ssmParameterOf ''/app/zeta'' ''String'' ''1'',
                  ssmParameterOf ''/app/alpha'' ''String'' ''2''],
             \<lparr>pending = [],
              received = [\<lparr> Path = ''/app'', Recursive = True, WithDecryption = True,
                            NextToken = None \<rparr>,
                          \<lparr> Path = ''/app'', Recursive = True, WithDecryption = True,
                            NextToken = Some ''n1'' \<rparr>]\<rparr>) \<and>
   listImages oneAccount sdkTemporaryCredentials 1000000 (\<lambda>client. scripted) ''prod'' ''api''
       (Some 0)
       \<lparr>pending = [Inr \<lparr> imageDetails = Some [imagePushed ''sha:x'' 300],
                         responseNextToken = Some ''p1'' \<rparr>,
                    Inr \<lparr> imageDetails = Some [imagePushed ''sha:y'' 400],
                         responseNextToken = Some [] \<rparr>],
         received = []\<rparr>
     = Some (Inr [mappedImagePushed ''api'' ''sha:y'' 400, mappedImagePushed ''api'' ''sha:x'' 300],
             \<lparr>pending = [],
              received = [describeImagesRequest ''api'' 0 None,
                          describeImagesRequest ''api'' 0 (Some ''p1'')]\<rparr>)"
  using paginated_listing [of oneAccount "''prod''" prodAccount
      "[tablePage1, tablePage2]" tablePage3
      "[\<lparr> Functions = Some [functionNamed ''resize''], NextMarker = Some ''m1'' \<rparr>]"
      "\<lparr> Functions = Some [functionNamed ''notify''], NextMarker = Some [] \<rparr>"
      "[\<lparr> Parameters = Some [parameterOf ''/app/zeta'' ''String'' ''1''],
          ResultNextToken = Some ''n1'' \<rparr>]"
      "\<lparr> Parameters = Some [parameterOf ''/app/alpha'' ''String'' ''2''],
         ResultNextToken = None \<rparr>"
      "[\<lparr> imageDetails = Some [imagePushed ''sha:x'' 300], responseNextToken = Some ''p1'' \<rparr>]"
      "\<lparr> imageDetails = Some [imagePushed ''sha:y'' 400], responseNextToken = Some [] \<rparr>"
      "Some 0"
      sdkTemporaryCredentials 1000000 "[]" "[]" "''/app''" True True "[]" "''api''" "[]"]
  by (simp add: truthy_def truthyNumber_def orEmpty_def orElse_def mapFunction_def
      mapParameter_def mapImage_def sortNewestFirst_def pushedTime_def Let_def)

text \<open>
  The claim as stated fails for the image listing. The vendor answers with two pages of
  one image each, the image of the first page pushed at time 100 and that of the second
  at time 200. \<open>listImages\<close> sends one request per page, the second with the cursor of
  the first page, and returns the image of the second page before that of the first,
  which is not the concatenation of the pages.
\<close>

theorem listImages_not_concatenation:
  "listImages oneAccount sdkTemporaryCredentials 1000000 (\<lambda>client. scripted) ''prod'' ''api'' None
       \<lparr>pending = [Inr \<lparr> imageDetails = Some [imagePushed ''sha:a'' 100],
                         responseNextToken = Some ''p1'' \<rparr>,
                    Inr \<lparr> imageDetails = Some [imagePushed ''sha:b'' 200],
                         responseNextToken = None \<rparr>],
         received = []\<rparr>
     = Some (Inr [mappedImagePushed ''api'' ''sha:b'' 200, mappedImagePushed ''api'' ''sha:a'' 100],
             \<lparr>pending = [],
              received = [describeImagesRequest ''api'' 100 None,
                          describeImagesRequest ''api'' 100 (Some ''p1'')]\<rparr>) \<and>
   map (mapImage ''api'')
       (concat [[imagePushed ''sha:a'' 100], [imagePushed ''sha:b'' 200]])
     = [mappedImagePushed ''api'' ''sha:a'' 100, mappedImagePushed ''api'' ''sha:b'' 200] \<and>
   [mappedImagePushed ''api'' ''sha:b'' 200, mappedImagePushed ''api'' ''sha:a'' 100]
     \<noteq> [mappedImagePushed ''api'' ''sha:a'' 100, mappedImagePushed ''api'' ''sha:b'' 200]"
  by (simp add: listImages_def getClient_def getAccount_def getCredentialsProvider_def
      listImages_loop.simps scripted_next truthyNumber_def truthy_def orEmpty_def orElse_def
      mapImage_def sortNewestFirst_def pushedTime_def Let_def)


text \<open>Properties of the order \<open>listImages\<close> puts the images in.\<close>

lemma sortNewestFirst_sorted:
  "sorted (map (\<lambda>a. - pushedTime a) (sortNewestFirst images))"
  by (simp add: sortNewestFirst_def)

lemma sortNewestFirst_stable:
  "filter (\<lambda>a. pushedTime a = t) (sortNewestFirst images) = filter (\<lambda>a. pushedTime a = t) images"
proof -
  have "filter (\<lambda>a. - pushedTime a = - t) (sort_key (\<lambda>a. - pushedTime a) images)
          = filter (\<lambda>a. - pushedTime a = - t) images"
    by (rule sort_key_stable)
  then show ?thesis by (simp add: sortNewestFirst_def)
qed

text \<open>
  C5, as the code has it. Over pages of which the last has no cursor and every other has
  one, \<open>getParametersByPath\<close> returns the parameters of all pages, mapped one by one, in
  the order of the pages. \<open>listImages\<close> without a ceiling reads the pages in the same way
  and then sorts: it returns the images of all pages ordered by push time, the newest
  first, and images pushed at the same time in the order in which the vendor gave them.
\<close>

theorem listing_order:
  assumes "accounts accountName = Some account"
    and "list_all (\<lambda>p. truthy (ResultNextToken p)) pps"
    and "\<not> truthy (ResultNextToken pq)"
    and "list_all (\<lambda>p. truthy (responseNextToken p)) ips"
    and "\<not> truthy (responseNextToken iq)"
  shows "getParametersByPath accounts ftc now (\<lambda>client. scripted) accountName path r wd
             \<lparr>pending = map Inr (pps @ [pq]) @ prest, received = []\<rparr>
           = Some (Inr (map (\<lambda>p. mapParameter p wd)
                          (concat (map (\<lambda>p. orEmpty (Parameters p)) (pps @ [pq])))),
                   \<lparr>pending = prest,
                    received = map (\<lambda>t. \<lparr> Path = path, Recursive = r, WithDecryption = wd,
                                           NextToken = t \<rparr>)
                                 (None # map ResultNextToken pps)\<rparr>) \<and>
         listImages accounts ftc now (\<lambda>client. scripted) accountName repo None
             \<lparr>pending = map Inr (ips @ [iq]) @ irest, received = []\<rparr>
           = Some (Inr (sortNewestFirst
                          (map (mapImage repo)
                             (concat (map (\<lambda>p. orEmpty (imageDetails p)) (ips @ [iq]))))),
                   \<lparr>pending = irest,
                    received = map (describeImagesRequest repo 100)
                                 (None # map responseNextToken ips)\<rparr>) \<and>
         sorted (map (\<lambda>a. - pushedTime a) (sortNewestFirst images)) \<and>
         filter (\<lambda>a. pushedTime a = t) (sortNewestFirst images)
           = filter (\<lambda>a. pushedTime a = t) images"
proof -
  have c: "getClient accounts ftc now svc accountName =
             Inr \<lparr> clientService = svc, clientRegion = region account,
                   clientCredentials =
                     ftc \<lparr> params = assumeRoleParams account now,
                           clientConfigRegion = region account \<rparr> \<rparr>" for svc
    using assms(1) by (simp add: getClient_def getAccount_def getCredentialsProvider_def)
  have n: "\<not> truthyNumber None" by (simp add: truthyNumber_def)
  from getParametersByPath_loop_scripted [OF assms(2,3), of path r wd "[]" None prest "[]"]
    listImages_loop_scripted_unbounded [OF n assms(4,5), of repo "[]" None irest "[]"]
  show ?thesis
    by (simp add: getParametersByPath_def listImages_def c n orElse_def Let_def
        sortNewestFirst_sorted sortNewestFirst_stable)
qed

text \<open>Two pages of parameters come back in the vendor's order; a page of three images
  comes back newest first, the two pushed at time 200 in the vendor's order.\<close>

theorem listing_order_witness:
  "getParametersByPath oneAccount sdkTemporaryCredentials 1000000 (\<lambda>client. scripted) ''prod''
       ''/app'' True True
       \<lparr>pending = [Inr \<lparr> Parameters = Some [parameterOf ''/app/zeta'' ''String'' ''1''],
                           ResultNextToken = Some ''n1'' \<rparr>,
                    Inr \<lparr> Parameters = Some [parameterOf ''/app/alpha'' ''String'' ''2''],
                           ResultNextToken = None \<rparr>],
         received = []\<rparr>
     = Some (Inr [ssmParameterOf ''/app/zeta'' ''String'' ''1'',
                  ssmParameterOf ''/app/alpha'' ''String'' ''2''],
             \<lparr>pending = [],
              received = [\<lparr> Path = ''/app'', Recursive = True, WithDecryption = True,
                            NextToken = None \<rparr>,
                          \<lparr> Path = ''/app'', Recursive = True, WithDecryption = True,
                            NextToken = Some ''n1'' \<rparr>]\<rparr>) \<and>
   listImages oneAccount sdkTemporaryCredentials 1000000 (\<lambda>client. scripted) ''prod'' ''api'' None
       \<lparr>pending = [Inr \<lparr> imageDetails = Some [imagePushed ''sha:a'' 100, imagePushed ''sha:b'' 200,
                                                 imagePushed ''sha:c'' 200],
                           responseNextToken = None \<rparr>],
         received = []\<rparr>
     = Some (Inr [mappedImagePushed ''api'' ''sha:b'' 200, mappedImagePushed ''api'' ''sha:c'' 200,
                  mappedImagePushed ''api'' ''sha:a'' 100],
             \<lparr>pending = [], received = [describeImagesRequest ''api'' 100 None]\<rparr>)"
  using listing_order [of oneAccount "''prod''" prodAccount
      "[\<lparr> Parameters = Some [parameterOf ''/app/zeta'' ''String'' ''1''],
          ResultNextToken = Some ''n1'' \<rparr>]"
      "\<lparr> Parameters = Some [parameterOf ''/app/alpha'' ''String'' ''2''],
         ResultNextToken = None \<rparr>"
      "[]"
      "\<lparr> imageDetails = Some [imagePushed ''sha:a'' 100, imagePushed ''sha:b'' 200,
                               imagePushed ''sha:c'' 200],
         responseNextToken = None \<rparr>"
      sdkTemporaryCredentials 1000000 "''/app''" True True "[]" "''api''" "[]"]
  by (simp add: truthy_def orEmpty_def orElse_def mapParameter_def mapImage_def
      sortNewestFirst_def pushedTime_def Let_def)

text \<open>
  The claim as stated fails for the image listing: the vendor returns an image pushed at
  time 100 before one pushed at time 200, and \<open>listImages\<close> returns them the other way
  round.
\<close>

theorem listImages_reorders:
  "listImages oneAccount sdkTemporaryCredentials 1000000 (\<lambda>client. scripted) ''prod'' ''api'' None
       \<lparr>pending = [Inr \<lparr> imageDetails = Some [imagePushed ''sha:a'' 100, imagePushed ''sha:b'' 200],
                           responseNextToken = None \<rparr>],
         received = []\<rparr>
     = Some (Inr [mappedImagePushed ''api'' ''sha:b'' 200, mappedImagePushed ''api'' ''sha:a'' 100],
             \<lparr>pending = [], received = [describeImagesRequest ''api'' 100 None]\<rparr>) \<and>
   map (mapImage ''api'') [imagePushed ''sha:a'' 100, imagePushed ''sha:b'' 200]
     = [mappedImagePushed ''api'' ''sha:a'' 100, mappedImagePushed ''api'' ''sha:b'' 200] \<and>
   [mappedImagePushed ''api'' ''sha:b'' 200, mappedImagePushed ''api'' ''sha:a'' 100]
     \<noteq> [mappedImagePushed ''api'' ''sha:a'' 100, mappedImagePushed ''api'' ''sha:b'' 200]"
  by (simp add: listImages_def getClient_def getAccount_def getCredentialsProvider_def
      listImages_loop.simps scripted_next truthyNumber_def truthy_def orEmpty_def orElse_def
      mapImage_def sortNewestFirst_def pushedTime_def Let_def)

text \<open>
  C6, as the code has it. With a positive ceiling \<open>k\<close>, let the vendor's pages begin with
  pages that all carry a cursor and together hold fewer than \<open>k\<close> images, followed by a
  page that has no cursor or brings the number of images to \<open>k\<close> or more. Then
  \<open>listImages\<close> sends one request per page up to that page and none after it, each asking
  for at most \<open>k\<close> images, sorts what it has read by push time, newest first, and returns
  the first \<open>k\<close> of the sorted images (all of them if they are fewer).
\<close>

theorem listImages_ceiling:
  assumes "accounts accountName = Some account"
    and "0 < k"
    and "list_all (\<lambda>p. truthy (responseNextToken p)) ps"
    and "int (length (concat (map (\<lambda>p. orEmpty (imageDetails p)) ps))) < k"
    and "\<not> truthy (responseNextToken q) \<or>
           k \<le> int (length (concat (map (\<lambda>p. orEmpty (imageDetails p)) (ps @ [q]))))"
  shows "listImages accounts ftc now (\<lambda>client. scripted) accountName repo (Some k)
             \<lparr>pending = map Inr (ps @ [q]) @ rest, received = []\<rparr>
           = Some (Inr (take (nat k)
                          (sortNewestFirst
                             (map (mapImage repo)
                                (concat (map (\<lambda>p. orEmpty (imageDetails p)) (ps @ [q])))))),
                   \<lparr>pending = rest,
                    received = map (describeImagesRequest repo k)
                                 (None # map responseNextToken ps)\<rparr>)"
proof -
  have c: "getClient accounts ftc now svc accountName =
             Inr \<lparr> clientService = svc, clientRegion = region account,
                   clientCredentials =
                     ftc \<lparr> params = assumeRoleParams account now,
                           clientConfigRegion = region account \<rparr> \<rparr>" for svc
    using assms(1) by (simp add: getClient_def getAccount_def getCredentialsProvider_def)
  have t: "truthyNumber (Some k)" using assms(2) by (simp add: truthyNumber_def)
  from listImages_loop_scripted_bounded [of k ps "[]" q repo None rest "[]"] assms(2-5)
  have "listImages_loop scripted repo (Some k) [] None
          \<lparr>pending = map Inr (ps @ [q]) @ rest, received = []\<rparr>
        = Some (Inr (map (mapImage repo)
                       (concat (map (\<lambda>p. orEmpty (imageDetails p)) (ps @ [q])))),
                \<lparr>pending = rest,
                 received = map (describeImagesRequest repo k)
                              (None # map responseNextToken ps)\<rparr>)"
    by simp
  then show ?thesis
    using assms(2) by (simp add: listImages_def c t orElse_def slice0_def Let_def)
qed


text \<open>With the ceiling 15 and pages of sizes 10, 10 and 4, two requests are sent, the
  third page stays with the vendor, and the 15 newest of the 20 images read come back.\<close>

theorem listImages_ceiling_witness:
  "listImages oneAccount sdkTemporaryCredentials 1000000 (\<lambda>client. scripted) ''prod'' ''api''
       (Some 15) \<lparr>pending = [Inr imagePage1, Inr imagePage2, Inr imagePage3], received = []\<rparr>
     = Some (Inr [
                mappedImagePushed ''api'' ''sha:20'' 20,
                mappedImagePushed ''api'' ''sha:19'' 19,
                mappedImagePushed ''api'' ''sha:18'' 18,
                mappedImagePushed ''api'' ''sha:17'' 17,
                mappedImagePushed ''api'' ''sha:16'' 16,
                mappedImagePushed ''api'' ''sha:15'' 15,
                mappedImagePushed ''api'' ''sha:14'' 14,
                mappedImagePushed ''api'' ''sha:13'' 13,
                mappedImagePushed ''api'' ''sha:12'' 12,
                mappedImagePushed ''api'' ''sha:11'' 11,
                mappedImagePushed ''api'' ''sha:10'' 10,
                mappedImagePushed ''api'' ''sha:09'' 9, mappedImagePushed ''api'' ''sha:08'' 8,
                mappedImagePushed ''api'' ''sha:07'' 7, mappedImagePushed ''api'' ''sha:06'' 6],
             \<lparr>pending = [Inr imagePage3],
              received = [describeImagesRequest ''api'' 15 None,
                          describeImagesRequest ''api'' 15 (Some ''p1'')]\<rparr>)"
  using listImages_ceiling [of oneAccount "''prod''" prodAccount 15 "[imagePage1]" imagePage2
      sdkTemporaryCredentials 1000000 "''api''" "[Inr imagePage3]"]
  by (simp add: truthy_def orEmpty_def orElse_def mapImage_def sortNewestFirst_def
      pushedTime_def)

text \<open>
  The claim as stated fails: with the ceiling 1 the vendor's one page holds an image
  pushed at time 100 and then one pushed at time 200; \<open>listImages\<close> returns the second,
  which is not the first image the vendor returned.
\<close>

theorem listImages_ceiling_not_first:
  "listImages oneAccount sdkTemporaryCredentials 1000000 (\<lambda>client. scripted) ''prod'' ''api''
       (Some 1)
       \<lparr>pending = [Inr \<lparr> imageDetails = Some [imagePushed ''sha:a'' 100, imagePushed ''sha:b'' 200],
                           responseNextToken = None \<rparr>],
         received = []\<rparr>
     = Some (Inr [mappedImagePushed ''api'' ''sha:b'' 200],
             \<lparr>pending = [], received = [describeImagesRequest ''api'' 1 None]\<rparr>) \<and>
   take 1 (map (mapImage ''api'') [imagePushed ''sha:a'' 100, imagePushed ''sha:b'' 200])
     = [mappedImagePushed ''api'' ''sha:a'' 100] \<and>
   [mappedImagePushed ''api'' ''sha:b'' 200] \<noteq> [mappedImagePushed ''api'' ''sha:a'' 100]"
  by (simp add: listImages_def getClient_def getAccount_def getCredentialsProvider_def
      listImages_loop.simps scripted_next truthyNumber_def truthy_def orEmpty_def orElse_def
      mapImage_def sortNewestFirst_def pushedTime_def slice0_def Let_def)



section \<open>SSM: secure strings\<close>







section \<open>Detail fetches: batches and enrichment errors\<close>





















lemma getTable_example:
  "getTable oneAccount sdkTemporaryCredentials 1000000 (\<lambda>client. dynamoExample) TableDetails
     ''prod'' n
   = (if n = ''t22'' then Inr None else Inr (Some (tableExample n)))"
  by (simp add: getTable_def getClient_def getAccount_def getCredentialsProvider_def
      mapTable_def tagsIfListed_def collectTags_def putTag_def Let_def)


lemma getBucket_example:
  "getBucket oneAccount sdkTemporaryCredentials 1000000 (\<lambda>client. s3Example names) (\<lambda>r. r)
     ''prod'' n
   = Inr (Some (bucketExample n))"
  by (simp add: getBucket_def getClient_def getAccount_def getCredentialsProvider_def
      regionStep_def versioningStep_def encryptionStep_def lifecycleStep_def
      publicAccessStep_def policyStatusStep_def tagsStep_def truthy_def orElse_def Let_def)





text \<open>Each step of \<open>getBucket\<close> leaves the fields of the other steps alone, and leaves the
  whole bucket alone when its request raised.\<close>

lemma regionStep_frame:
  "bucketName (regionStep outcome bucket) = bucketName bucket"
  "creationDate (regionStep outcome bucket) = creationDate bucket"
  "versioningEnabled (regionStep outcome bucket) = versioningEnabled bucket"
  "mfaDeleteEnabled (regionStep outcome bucket) = mfaDeleteEnabled bucket"
  "encryptionEnabled (regionStep outcome bucket) = encryptionEnabled bucket"
  "encryptionType (regionStep outcome bucket) = encryptionType bucket"
  "kmsKeyId (regionStep outcome bucket) = kmsKeyId bucket"
  "lifecycleRules (regionStep outcome bucket) = lifecycleRules bucket"
  "publicAccessBlocked (regionStep outcome bucket) = publicAccessBlocked bucket"
  "policyIsPublic (regionStep outcome bucket) = policyIsPublic bucket"
  "bucketTags (regionStep outcome bucket) = bucketTags bucket"
  by (simp_all add: regionStep_def Let_def split: sum.splits)

lemma regionStep_raised: "isl outcome \<Longrightarrow> regionStep outcome bucket = bucket"
  by (cases outcome) (simp_all add: regionStep_def)

lemma versioningStep_frame:
  "bucketName (versioningStep outcome bucket) = bucketName bucket"
  "creationDate (versioningStep outcome bucket) = creationDate bucket"
  "bucketRegion (versioningStep outcome bucket) = bucketRegion bucket"
  "encryptionEnabled (versioningStep outcome bucket) = encryptionEnabled bucket"
  "encryptionType (versioningStep outcome bucket) = encryptionType bucket"
  "kmsKeyId (versioningStep outcome bucket) = kmsKeyId bucket"
  "lifecycleRules (versioningStep outcome bucket) = lifecycleRules bucket"
  "publicAccessBlocked (versioningStep outcome bucket) = publicAccessBlocked bucket"
  "policyIsPublic (versioningStep outcome bucket) = policyIsPublic bucket"
  "bucketTags (versioningStep outcome bucket) = bucketTags bucket"
  by (simp_all add: versioningStep_def Let_def split: sum.splits)

lemma versioningStep_raised: "isl outcome \<Longrightarrow> versioningStep outcome bucket = bucket"
  by (cases outcome) (simp_all add: versioningStep_def)

lemma encryptionStep_frame:
  "bucketName (encryptionStep outcome bucket) = bucketName bucket"
  "creationDate (encryptionStep outcome bucket) = creationDate bucket"
  "bucketRegion (encryptionStep outcome bucket) = bucketRegion bucket"
  "versioningEnabled (encryptionStep outcome bucket) = versioningEnabled bucket"
  "mfaDeleteEnabled (encryptionStep outcome bucket) = mfaDeleteEnabled bucket"
  "lifecycleRules (encryptionStep outcome bucket) = lifecycleRules bucket"
  "publicAccessBlocked (encryptionStep outcome bucket) = publicAccessBlocked bucket"
  "policyIsPublic (encryptionStep outcome bucket) = policyIsPublic bucket"
  "bucketTags (encryptionStep outcome bucket) = bucketTags bucket"
  by (simp_all add: encryptionStep_def Let_def split: sum.splits list.splits)

lemma encryptionStep_raised: "isl outcome \<Longrightarrow> encryptionStep outcome bucket = bucket"
  by (cases outcome) (simp_all add: encryptionStep_def)

lemma lifecycleStep_frame:
  "bucketName (lifecycleStep mapRule outcome bucket) = bucketName bucket"
  "creationDate (lifecycleStep mapRule outcome bucket) = creationDate bucket"
  "bucketRegion (lifecycleStep mapRule outcome bucket) = bucketRegion bucket"
  "versioningEnabled (lifecycleStep mapRule outcome bucket) = versioningEnabled bucket"
  "mfaDeleteEnabled (lifecycleStep mapRule outcome bucket) = mfaDeleteEnabled bucket"
  "encryptionEnabled (lifecycleStep mapRule outcome bucket) = encryptionEnabled bucket"
  "encryptionType (lifecycleStep mapRule outcome bucket) = encryptionType bucket"
  "kmsKeyId (lifecycleStep mapRule outcome bucket) = kmsKeyId bucket"
  "publicAccessBlocked (lifecycleStep mapRule outcome bucket) = publicAccessBlocked bucket"
  "policyIsPublic (lifecycleStep mapRule outcome bucket) = policyIsPublic bucket"
  "bucketTags (lifecycleStep mapRule outcome bucket) = bucketTags bucket"
  by (simp_all add: lifecycleStep_def Let_def split: sum.splits)

lemma lifecycleStep_raised: "isl outcome \<Longrightarrow> lifecycleStep mapRule outcome bucket = bucket"
  by (cases outcome) (simp_all add: lifecycleStep_def)

lemma publicAccessStep_frame:
  "bucketName (publicAccessStep outcome bucket) = bucketName bucket"
  "creationDate (publicAccessStep outcome bucket) = creationDate bucket"
  "bucketRegion (publicAccessStep outcome bucket) = bucketRegion bucket"
  "versioningEnabled (publicAccessStep outcome bucket) = versioningEnabled bucket"
  "mfaDeleteEnabled (publicAccessStep outcome bucket) = mfaDeleteEnabled bucket"
  "encryptionEnabled (publicAccessStep outcome bucket) = encryptionEnabled bucket"
  "encryptionType (publicAccessStep outcome bucket) = encryptionType bucket"
  "kmsKeyId (publicAccessStep outcome bucket) = kmsKeyId bucket"
  "lifecycleRules (publicAccessStep outcome bucket) = lifecycleRules bucket"
  "policyIsPublic (publicAccessStep outcome bucket) = policyIsPublic bucket"
  "bucketTags (publicAccessStep outcome bucket) = bucketTags bucket"
  by (simp_all add: publicAccessStep_def Let_def split: sum.splits)

lemma publicAccessStep_raised: "isl outcome \<Longrightarrow> publicAccessStep outcome bucket = bucket"
  by (cases outcome) (simp_all add: publicAccessStep_def)

lemma policyStatusStep_frame:
  "bucketName (policyStatusStep outcome bucket) = bucketName bucket"
  "creationDate (policyStatusStep outcome bucket) = creationDate bucket"
  "bucketRegion (policyStatusStep outcome bucket) = bucketRegion bucket"
  "versioningEnabled (policyStatusStep outcome bucket) = versioningEnabled bucket"
  "mfaDeleteEnabled (policyStatusStep outcome bucket) = mfaDeleteEnabled bucket"
  "encryptionEnabled (policyStatusStep outcome bucket) = encryptionEnabled bucket"
  "encryptionType (policyStatusStep outcome bucket) = encryptionType bucket"
  "kmsKeyId (policyStatusStep outcome bucket) = kmsKeyId bucket"
  "lifecycleRules (policyStatusStep outcome bucket) = lifecycleRules bucket"
  "publicAccessBlocked (policyStatusStep outcome bucket) = publicAccessBlocked bucket"
  "bucketTags (policyStatusStep outcome bucket) = bucketTags bucket"
  by (simp_all add: policyStatusStep_def Let_def split: sum.splits)

lemma policyStatusStep_raised: "isl outcome \<Longrightarrow> policyStatusStep outcome bucket = bucket"
  by (cases outcome) (simp_all add: policyStatusStep_def)

lemma tagsStep_frame:
  "bucketName (tagsStep outcome bucket) = bucketName bucket"
  "creationDate (tagsStep outcome bucket) = creationDate bucket"
  "bucketRegion (tagsStep outcome bucket) = bucketRegion bucket"
  "versioningEnabled (tagsStep outcome bucket) = versioningEnabled bucket"
  "mfaDeleteEnabled (tagsStep outcome bucket) = mfaDeleteEnabled bucket"
  "encryptionEnabled (tagsStep outcome bucket) = encryptionEnabled bucket"
  "encryptionType (tagsStep outcome bucket) = encryptionType bucket"
  "kmsKeyId (tagsStep outcome bucket) = kmsKeyId bucket"
  "lifecycleRules (tagsStep outcome bucket) = lifecycleRules bucket"
  "publicAccessBlocked (tagsStep outcome bucket) = publicAccessBlocked bucket"
  "policyIsPublic (tagsStep outcome bucket) = policyIsPublic bucket"
  by (simp_all add: tagsStep_def Let_def split: sum.splits option.splits)

lemma tagsStep_raised: "isl outcome \<Longrightarrow> tagsStep outcome bucket = bucket"
  by (cases outcome) (simp_all add: tagsStep_def)

lemmas getBucket_frames =
  regionStep_frame versioningStep_frame encryptionStep_frame lifecycleStep_frame publicAccessStep_frame policyStatusStep_frame tagsStep_frame

lemma getTable_found:
  assumes "getClient accounts ftc now DynamoDB accountName = Inr client"
    and "DescribeTableCommand (dynamo client) tableName = Inr response"
    and "Table response = Some table"
  shows "\<exists>t. getTable accounts ftc now dynamo mapDescription accountName tableName = Inr (Some t) \<and>
           (isl (DescribeTimeToLiveCommand (dynamo client) tableName)
              \<longrightarrow> \<not> ttlEnabled t \<and> ttlAttributeName t = None) \<and>
           (isl (DescribeContinuousBackupsCommand (dynamo client) tableName)
              \<longrightarrow> \<not> pitrEnabled t \<and> latestRestorableDateTime t = None) \<and>
           (isl (ListTagsOfResourceCommand (dynamo client) (TableArn table))
              \<longrightarrow> tableTags t = None)"
  using assms
  by (auto simp: getTable_def mapTable_def Let_def split: sum.splits option.splits prod.splits)

text \<open>
  C3, as the code has it. When \<open>getTable\<close> has found the table, it returns it whatever
  the three enrichment requests do: if the time-to-live request raises, whatever the
  exception, the two time-to-live fields keep their defaults, and likewise for the
  recovery request and the tags request. \<open>getBucket\<close> has no request that can fail it;
  if its region or versioning request raises, whatever the exception, the fields of that
  step keep their defaults. If each of the five later requests of \<open>getBucket\<close> succeeds
  or raises the exception its handler names, then the default is kept wherever one of
  them raised.
\<close>

theorem enrichment_errors:
  assumes "getClient accounts ftc now DynamoDB accountName = Inr dc"
    and "DescribeTableCommand (dynamo dc) tableName = Inr response"
    and "Table response = Some table"
    and "getClient accounts ftc now S3 accountName = Inr sc"
    and "benignOrOk ''ServerSideEncryptionConfigurationNotFoundError''
           (GetBucketEncryptionCommand (s3 sc) bname)"
    and "benignOrOk ''NoSuchLifecycleConfiguration''
           (GetBucketLifecycleConfigurationCommand (s3 sc) bname)"
    and "benignOrOk ''NoSuchPublicAccessBlockConfiguration''
           (GetPublicAccessBlockCommand (s3 sc) bname)"
    and "benignOrOk ''NoSuchBucketPolicy'' (GetBucketPolicyStatusCommand (s3 sc) bname)"
    and "benignOrOk ''NoSuchTagSet'' (GetBucketTaggingCommand (s3 sc) bname)"
  shows "\<exists>t b.
           getTable accounts ftc now dynamo mapDescription accountName tableName = Inr (Some t) \<and>
           (isl (DescribeTimeToLiveCommand (dynamo dc) tableName)
              \<longrightarrow> \<not> ttlEnabled t \<and> ttlAttributeName t = None) \<and>
           (isl (DescribeContinuousBackupsCommand (dynamo dc) tableName)
              \<longrightarrow> \<not> pitrEnabled t \<and> latestRestorableDateTime t = None) \<and>
           (isl (ListTagsOfResourceCommand (dynamo dc) (TableArn table))
              \<longrightarrow> tableTags t = None) \<and>
           getBucket accounts ftc now s3 mapRule accountName bname = Inr (Some b) \<and>
           (isl (GetBucketLocationCommand (s3 sc) bname) \<longrightarrow> bucketRegion b = None) \<and>
           (isl (GetBucketVersioningCommand (s3 sc) bname)
              \<longrightarrow> \<not> versioningEnabled b \<and> \<not> mfaDeleteEnabled b) \<and>
           (isl (GetBucketEncryptionCommand (s3 sc) bname)
              \<longrightarrow> \<not> encryptionEnabled b \<and> encryptionType b = None \<and> kmsKeyId b = None) \<and>
           (isl (GetBucketLifecycleConfigurationCommand (s3 sc) bname)
              \<longrightarrow> lifecycleRules b = []) \<and>
           (isl (GetPublicAccessBlockCommand (s3 sc) bname) \<longrightarrow> \<not> publicAccessBlocked b) \<and>
           (isl (GetBucketPolicyStatusCommand (s3 sc) bname) \<longrightarrow> \<not> policyIsPublic b) \<and>
           (isl (GetBucketTaggingCommand (s3 sc) bname) \<longrightarrow> bucketTags b = None)"
proof -
  from getTable_found [where dynamo = dynamo and client = dc and mapDescription = mapDescription,
      OF assms(1-3)] obtain t where
    t: "getTable accounts ftc now dynamo mapDescription accountName tableName = Inr (Some t)"
      "isl (DescribeTimeToLiveCommand (dynamo dc) tableName)
         \<longrightarrow> \<not> ttlEnabled t \<and> ttlAttributeName t = None"
      "isl (DescribeContinuousBackupsCommand (dynamo dc) tableName)
         \<longrightarrow> \<not> pitrEnabled t \<and> latestRestorableDateTime t = None"
      "isl (ListTagsOfResourceCommand (dynamo dc) (TableArn table)) \<longrightarrow> tableTags t = None"
    by blast
  define b where
    "b = tagsStep (GetBucketTaggingCommand (s3 sc) bname)
          (policyStatusStep (GetBucketPolicyStatusCommand (s3 sc) bname)
            (publicAccessStep (GetPublicAccessBlockCommand (s3 sc) bname)
              (lifecycleStep mapRule (GetBucketLifecycleConfigurationCommand (s3 sc) bname)
                (encryptionStep (GetBucketEncryptionCommand (s3 sc) bname)
                  (versioningStep (GetBucketVersioningCommand (s3 sc) bname)
                    (regionStep (GetBucketLocationCommand (s3 sc) bname)
                      \<lparr> bucketName = bname, creationDate = None, bucketRegion = None,
                        versioningEnabled = False, mfaDeleteEnabled = False,
                        encryptionEnabled = False, encryptionType = None, kmsKeyId = None,
                        lifecycleRules = [], publicAccessBlocked = False,
                        policyIsPublic = False, bucketTags = None \<rparr>))))))"
  have g: "getBucket accounts ftc now s3 mapRule accountName bname = Inr (Some b)"
    using assms(4) by (simp add: getBucket_def Let_def b_def)
  have f: "isl (GetBucketLocationCommand (s3 sc) bname) \<longrightarrow> bucketRegion b = None"
    "isl (GetBucketVersioningCommand (s3 sc) bname)
       \<longrightarrow> \<not> versioningEnabled b \<and> \<not> mfaDeleteEnabled b"
    "isl (GetBucketEncryptionCommand (s3 sc) bname)
       \<longrightarrow> \<not> encryptionEnabled b \<and> encryptionType b = None \<and> kmsKeyId b = None"
    "isl (GetBucketLifecycleConfigurationCommand (s3 sc) bname) \<longrightarrow> lifecycleRules b = []"
    "isl (GetPublicAccessBlockCommand (s3 sc) bname) \<longrightarrow> \<not> publicAccessBlocked b"
    "isl (GetBucketPolicyStatusCommand (s3 sc) bname) \<longrightarrow> \<not> policyIsPublic b"
    "isl (GetBucketTaggingCommand (s3 sc) bname) \<longrightarrow> bucketTags b = None"
    by (simp_all add: b_def getBucket_frames regionStep_raised versioningStep_raised
        encryptionStep_raised lifecycleStep_raised publicAccessStep_raised
        policyStatusStep_raised tagsStep_raised)
  from t g f show ?thesis by blast
qed


text \<open>With the vendors of the examples: the time-to-live request of table \<open>t21\<close> and the
  versioning request of bucket \<open>b01\<close> are denied, the other requests of the bucket raise
  the exceptions their handlers name, and both entities come back with the defaults.\<close>

theorem enrichment_errors_witness:
  "getTable oneAccount sdkTemporaryCredentials 1000000 (\<lambda>client. dynamoExample) TableDetails
       ''prod'' ''t21''
     = Inr (Some (tableExample ''t21'')) \<and>
   isl (DescribeTimeToLiveCommand dynamoExample ''t21'') \<and>
   \<not> ttlEnabled (tableExample ''t21'') \<and> ttlAttributeName (tableExample ''t21'') = None \<and>
   getBucket oneAccount sdkTemporaryCredentials 1000000 (\<lambda>client. s3Example [''b01''])
       (\<lambda>r. r) ''prod'' ''b01''
     = Inr (Some (bucketExample ''b01'')) \<and>
   isl (GetBucketVersioningCommand (s3Example [''b01'']) ''b01'') \<and>
   \<not> versioningEnabled (bucketExample ''b01'') \<and>
   \<not> mfaDeleteEnabled (bucketExample ''b01'') \<and>
   benignOrOk ''NoSuchTagSet'' (GetBucketTaggingCommand (s3Example [''b01'']) ''b01'') \<and>
   bucketTags (bucketExample ''b01'') = None"
proof -
  let ?dc = "\<lparr> clientService = DynamoDB, clientRegion = ''eu-west-1'',
                clientCredentials =
                  sdkTemporaryCredentials
                    \<lparr> params = assumeRoleParams prodAccount 1000000,
                      clientConfigRegion = ''eu-west-1'' \<rparr> \<rparr>"
  let ?sc = "\<lparr> clientService = S3, clientRegion = ''eu-west-1'',
                clientCredentials =
                  sdkTemporaryCredentials
                    \<lparr> params = assumeRoleParams prodAccount 1000000,
                      clientConfigRegion = ''eu-west-1'' \<rparr> \<rparr>"
  have h1: "getClient oneAccount sdkTemporaryCredentials 1000000 DynamoDB ''prod'' = Inr ?dc"
    by (simp add: getClient_def getAccount_def getCredentialsProvider_def)
  have h2: "DescribeTableCommand dynamoExample ''t21''
              = Inr \<lparr> Table = Some \<lparr> TableArn = Some ''arn:aws:dynamodb:table/t21'',
                                      TableDetails = ''t21'' \<rparr> \<rparr>"
    by simp
  have h3: "Table \<lparr> Table = Some \<lparr> TableArn = Some ''arn:aws:dynamodb:table/t21'',
                                   TableDetails = ''t21'' \<rparr> \<rparr>
              = Some \<lparr> TableArn = Some ''arn:aws:dynamodb:table/t21'', TableDetails = ''t21'' \<rparr>"
    by simp
  have h4: "getClient oneAccount sdkTemporaryCredentials 1000000 S3 ''prod'' = Inr ?sc"
    by (simp add: getClient_def getAccount_def getCredentialsProvider_def)
  have h5: "benignOrOk ''ServerSideEncryptionConfigurationNotFoundError''
              (GetBucketEncryptionCommand (s3Example [''b01'']) ''b01'')"
    and h6: "benignOrOk ''NoSuchLifecycleConfiguration''
              (GetBucketLifecycleConfigurationCommand (s3Example [''b01'']) ''b01'')"
    and h7: "benignOrOk ''NoSuchPublicAccessBlockConfiguration''
              (GetPublicAccessBlockCommand (s3Example [''b01'']) ''b01'')"
    and h8: "benignOrOk ''NoSuchBucketPolicy''
              (GetBucketPolicyStatusCommand (s3Example [''b01'']) ''b01'')"
    and h9: "benignOrOk ''NoSuchTagSet'' (GetBucketTaggingCommand (s3Example [''b01'']) ''b01'')"
    by (simp_all add: benignOrOk_def)
  from enrichment_errors [where dynamo = "\<lambda>client. dynamoExample"
      and ?s3.0 = "\<lambda>client. s3Example [''b01'']" and mapDescription = TableDetails
      and mapRule = "\<lambda>r. r", OF h1 h2 h3 h4 h5 h6 h7 h8 h9]
  obtain t b where
    t: "getTable oneAccount sdkTemporaryCredentials 1000000 (\<lambda>client. dynamoExample)
          TableDetails ''prod'' ''t21'' = Inr (Some t)"
      "isl (DescribeTimeToLiveCommand dynamoExample ''t21'')
         \<longrightarrow> \<not> ttlEnabled t \<and> ttlAttributeName t = None"
    and b: "getBucket oneAccount sdkTemporaryCredentials 1000000 (\<lambda>client. s3Example [''b01''])
          (\<lambda>r. r) ''prod'' ''b01'' = Inr (Some b)"
      "isl (GetBucketVersioningCommand (s3Example [''b01'']) ''b01'')
         \<longrightarrow> \<not> versioningEnabled b \<and> \<not> mfaDeleteEnabled b"
      "isl (GetBucketTaggingCommand (s3Example [''b01'']) ''b01'') \<longrightarrow> bucketTags b = None"
    by blast
  from t(1) have te: "t = tableExample ''t21''" by (simp add: getTable_example)
  from b(1) getBucket_example [of "[''b01'']" "''b01''"]
  have be: "b = bucketExample ''b01''" by simp
  from t b h9 show ?thesis unfolding te be by simp
qed

text \<open>
  The claim as stated fails: the time-to-live request of table \<open>t21\<close> raises
  \<open>AccessDeniedException\<close>, which no predicate classifies as benign, and \<open>getTable\<close>
  returns the table with the time-to-live fields at their defaults instead of failing.
\<close>

theorem getTable_swallows_unclassified:
  "DescribeTimeToLiveCommand dynamoExample ''t21'' = Inl (VendorFailure ''AccessDeniedException'') \<and>
   getTable oneAccount sdkTemporaryCredentials 1000000 (\<lambda>client. dynamoExample) TableDetails
       ''prod'' ''t21''
     = Inr (Some \<lparr> tableDescription = ''t21'', ttlEnabled = False, ttlAttributeName = None,
                   pitrEnabled = True, latestRestorableDateTime = Some 900000,
                   tableTags = Some [] \<rparr>)"
  by (simp add: getTable_example)


section \<open>Tags of the normalized entities\<close>

text \<open>The mappers of the secrets and file-system providers never give an empty tag
  object: they test the object after filling it.\<close>

lemma mappers_omit_empty_tags:
  "secretTags (mapSecret secret) \<noteq> Some [] \<and>
   fileSystemTags (mapFileSystem now fs) \<noteq> Some []"
  by (simp add: mapSecret_def mapFileSystem_def nonEmptyTags_def Let_def)

text \<open>
  C9 at the inputs where the code departs from it. \<open>getFunction\<close> hands on the vendor's
  tag object as it is, so the empty object of the vendor becomes the tags of the
  function. \<open>getTable\<close> tests the vendor's tag list before it filters it: a table whose
  one tag has the empty string as its value gets an empty tag object. \<open>mapSecret\<close>, given
  the same tag list, omits the tags.
\<close>

theorem empty_tags_not_omitted:
  "getFunction oneAccount sdkTemporaryCredentials 1000000 (\<lambda>client. scripted) ''prod'' ''resize''
       \<lparr>pending = [Inr \<lparr> Configuration = Some (functionNamed ''resize''),
                           FunctionTags = Some [] \<rparr>],
         received = []\<rparr>
     = (Inr (Some ((mappedFunctionNamed ''resize'')\<lparr> tags := Some [] \<rparr>)),
        \<lparr>pending = [], received = [''resize'']\<rparr>) \<and>
   ListTagsOfResourceCommand dynamoExample (Some ''arn:aws:dynamodb:table/t21'')
     = Inr \<lparr> ResourceTags = Some [\<lparr> Key = Some ''backup'', Value = Some [] \<rparr>] \<rparr> \<and>
   (case getTable oneAccount sdkTemporaryCredentials 1000000 (\<lambda>client. dynamoExample)
           TableDetails ''prod'' ''t21'' of
      Inl e \<Rightarrow> None
    | Inr None \<Rightarrow> None
    | Inr (Some t) \<Rightarrow> Some (tableTags t)) = Some (Some []) \<and>
   secretTags (mapSecret \<lparr> SecretName = Some ''db'', SecretARN = None, SecretDescription = None,
                           SecretKmsKeyId = None, RotationEnabled = None,
                           LastChangedDate = None, LastAccessedDate = None,
                           SecretTags = Some [\<lparr> Key = Some ''backup'', Value = Some [] \<rparr>] \<rparr>)
     = None"
  by (simp add: getFunction_def getClient_def getAccount_def getCredentialsProvider_def
      scripted_next mapFunction_def orElse_def orEmpty_def getTable_example mapSecret_def
      collectTags_def putTag_def nonEmptyTags_def Let_def)

end
